theory Spec2Isabelle
  imports Main "HOL-Library.Sublist"
begin

section \<open>Python values and exceptions\<close>

text \<open>
  The generator library is Python 2. Its byte strings are \<^typ>\<open>string\<close>, its unbounded
  integers are \<^typ>\<open>int\<close>. Every \<^verbatim>\<open>raise\<close> and every failing dictionary lookup is a
  value of \<open>error\<close>, carried on the left of a sum.
\<close>

datatype error =
    ValueError string
  | KeyError string
  | TypeError
  | ImportError string
  | UnboundLocalError string

text \<open>\<^verbatim>\<open>str.lower\<close> and \<^verbatim>\<open>str.upper\<close> of a byte string change the ASCII letters only.\<close>

definition lower_char :: "char \<Rightarrow> char" where
  "lower_char c =
     (let n = (of_char c :: nat) in if 65 \<le> n \<and> n \<le> 90 then char_of (n + 32) else c)"

definition upper_char :: "char \<Rightarrow> char" where
  "upper_char c =
     (let n = (of_char c :: nat) in if 97 \<le> n \<and> n \<le> 122 then char_of (n - 32) else c)"

definition lower :: "string \<Rightarrow> string" where
  "lower s = map lower_char s"

definition upper :: "string \<Rightarrow> string" where
  "upper s = map upper_char s"

text \<open>
  \<^verbatim>\<open>s.replace(old, new)\<close>: every occurrence of \<open>old\<close>, found from the left and not
  overlapping, becomes \<open>new\<close>; an empty \<open>old\<close> matches before every character and at
  the end.
\<close>

function replace :: "string \<Rightarrow> string \<Rightarrow> string \<Rightarrow> string" where
  "replace s old new =
     (if old = [] then new @ concat (map (\<lambda>c. c # new) s)
      else if s = [] then []
      else if prefix old s then new @ replace (drop (length old) s) old new
      else hd s # replace (tl s) old new)"
  by pat_completeness auto
termination
  by (relation "measure (\<lambda>(s, old, new). length s)") (auto simp: neq_Nil_conv)

text \<open>The decimal digits of an integer, as \<^verbatim>\<open>format\<close> writes them.\<close>

function str_nat :: "nat \<Rightarrow> string" where
  "str_nat n =
     (if n < 10 then [char_of (48 + n)] else str_nat (n div 10) @ [char_of (48 + n mod 10)])"
  by pat_completeness auto
termination
  by (relation "measure (\<lambda>n. n)") auto

definition str_int :: "int \<Rightarrow> string" where
  "str_int i = (if i < 0 then ''-'' @ str_nat (nat (- i)) else str_nat (nat i))"

text \<open>The tabulator of the templates.\<close>

definition TAB :: string where
  "TAB = [CHR 0x09]"

section \<open>Type sizes (common.py, lines 75 to 94)\<close>

text \<open>An element of a packet is the tuple \<^verbatim>\<open>(name, type, cardinality, direction)\<close>.\<close>

type_synonym element = "string \<times> string \<times> int \<times> string"

definition element_0 :: "element \<Rightarrow> string" where
  "element_0 e = fst e"

definition element_1 :: "element \<Rightarrow> string" where
  "element_1 e = fst (snd e)"

definition element_2 :: "element \<Rightarrow> int" where
  "element_2 e = fst (snd (snd e))"

definition element_3 :: "element \<Rightarrow> string" where
  "element_3 e = snd (snd (snd e))"

text \<open>The dictionary literal of \<^verbatim>\<open>get_type_size\<close>, in the order of the source.\<close>

definition types :: "(string \<times> int) list" where
  "types =
     [(''int8'', 1), (''uint8'', 1), (''int16'', 2), (''uint16'', 2),
      (''int32'', 4), (''uint32'', 4), (''int64'', 8), (''uint64'', 8),
      (''float'', 4), (''bool'', 1), (''string'', 1), (''char'', 1)]"

definition get_type_size :: "string \<Rightarrow> error + int" where
  "get_type_size typ =
     (case map_of types typ of None \<Rightarrow> Inl (KeyError typ) | Some n \<Rightarrow> Inr n)"

definition get_element_size :: "element \<Rightarrow> error + int" where
  "get_element_size element =
     (case get_type_size (element_1 element) of
        Inl e \<Rightarrow> Inl e
      | Inr n \<Rightarrow> Inr (n * element_2 element))"

section \<open>Packets (common.py, lines 231 to 291)\<close>

text \<open>
  A packet of a configuration is a dictionary. The keys the library reads are fields of
  the record; \<^verbatim>\<open>function_id\<close> is the one key a configuration may leave out, so
  it is optional. \<^verbatim>\<open>name\<close> is the pair of the camel case and the underscore name,
  \<^verbatim>\<open>doc\<close> the pair of a tag and the texts by language.
\<close>

record packet_cfg =
  packet_type :: string
  packet_name :: "string \<times> string"
  elements :: "element list"
  doc :: "string \<times> (string \<times> string) list"
  function_id :: "int option"

record Packet =
  packet :: packet_cfg
  all_elements :: "element list"
  in_elements :: "element list"
  out_elements :: "element list"

text \<open>
  The loop of \<^verbatim>\<open>Packet.__init__\<close> over \<^verbatim>\<open>all_elements\<close>: each element is appended
  to the list of its direction, and the first element of another direction raises.
\<close>

fun sort_elements ::
  "element list \<Rightarrow> element list \<Rightarrow> element list \<Rightarrow> error + (element list \<times> element list)"
where
  "sort_elements [] ins outs = Inr (ins, outs)"
| "sort_elements (element # rest) ins outs =
     (if element_3 element = ''in'' then sort_elements rest (ins @ [element]) outs
      else if element_3 element = ''out'' then sort_elements rest ins (outs @ [element])
      else Inl (ValueError (''Invalid element direction '' @ element_3 element)))"

definition name_mismatch :: "packet_cfg \<Rightarrow> bool" where
  "name_mismatch p \<longleftrightarrow>
     lower (fst (packet_name p)) \<noteq> replace (snd (packet_name p)) ''_'' ''''"

definition Packet_init :: "packet_cfg \<Rightarrow> error + Packet" where
  "Packet_init p =
     (if name_mismatch p
      then Inl (ValueError (''Name mismatch: '' @ fst (packet_name p) @ '' != '' @ snd (packet_name p)))
      else case sort_elements (elements p) [] [] of
             Inl e \<Rightarrow> Inl e
           | Inr (ins, outs) \<Rightarrow>
               Inr \<lparr>packet = p, all_elements = elements p, in_elements = ins, out_elements = outs\<rparr>)"

definition get_type :: "Packet \<Rightarrow> string" where
  "get_type self = packet_type (packet self)"

definition get_camel_case_name :: "Packet \<Rightarrow> string" where
  "get_camel_case_name self = fst (packet_name (packet self))"

definition get_underscore_name :: "Packet \<Rightarrow> string" where
  "get_underscore_name self = snd (packet_name (packet self))"

definition get_upper_case_name :: "Packet \<Rightarrow> string" where
  "get_upper_case_name self = upper (snd (packet_name (packet self)))"

definition get_elements :: "Packet \<Rightarrow> string option \<Rightarrow> error + element list" where
  "get_elements self direction =
     (case direction of
        None \<Rightarrow> Inr (all_elements self)
      | Some d \<Rightarrow>
          if d = ''in'' then Inr (in_elements self)
          else if d = ''out'' then Inr (out_elements self)
          else Inl (ValueError (''Invalid element direction '' @ d)))"

definition get_doc :: "Packet \<Rightarrow> string \<times> (string \<times> string) list" where
  "get_doc self = doc (packet self)"

definition get_function_id :: "Packet \<Rightarrow> error + int" where
  "get_function_id self =
     (case function_id (packet self) of
        None \<Rightarrow> Inl (KeyError ''function_id'')
      | Some n \<Rightarrow> Inr n)"

text \<open>
  The loops of \<^verbatim>\<open>get_request_length\<close> and \<^verbatim>\<open>get_response_length\<close>: the length
  starts at 4 and grows by the size of each element; a failing size lookup ends the loop.
\<close>

fun add_element_sizes :: "int \<Rightarrow> element list \<Rightarrow> error + int" where
  "add_element_sizes len [] = Inr len"
| "add_element_sizes len (element # rest) =
     (case get_element_size element of
        Inl e \<Rightarrow> Inl e
      | Inr n \<Rightarrow> add_element_sizes (len + n) rest)"

definition get_request_length :: "Packet \<Rightarrow> error + int" where
  "get_request_length self = add_element_sizes 4 (in_elements self)"

definition get_response_length :: "Packet \<Rightarrow> error + int" where
  "get_response_length self = add_element_sizes 4 (out_elements self)"

section \<open>Devices (common.py, lines 293 to 350)\<close>

text \<open>
  The configuration of a device is the dictionary \<^verbatim>\<open>com\<close> of its module. Python
  holds the packet dictionaries in the list \<^verbatim>\<open>com['packets']\<close> by reference, so the
  record is polymorphic in what a reference is. The key \<^verbatim>\<open>common_included\<close> is absent
  from a configuration file and set by the driver.
\<close>

record 'p com =
  com_name :: "string \<times> string \<times> string"
  category :: string
  packets :: "'p list"
  common_included :: "bool option"

text \<open>
  The packet dictionaries live in a heap, and a reference is an address of it. One
  dictionary may stand at several positions of a list, and in the lists of several
  configurations.
\<close>

type_synonym heap = "nat \<Rightarrow> packet_cfg"

record Device =
  com :: "nat com"
  all_packets :: "Packet list"
  function_packets :: "Packet list"
  callback_packets :: "Packet list"

text \<open>
  \<^verbatim>\<open>Device.__init__\<close> writes into the packet dictionaries of the caller: it takes the
  heap and returns the heap it leaves. Line 302, the assignment of the identifier to a
  dictionary without one:
\<close>

definition assign_function_id :: "nat \<Rightarrow> packet_cfg \<Rightarrow> packet_cfg" where
  "assign_function_id i p =
     (if function_id p = None then p\<lparr>function_id := Some (int i + 1)\<rparr> else p)"

text \<open>
  The first loop (lines 300 to 303), from position \<open>i\<close> on. In each round the
  dictionary at the address \<open>a\<close> is written, then the packet is constructed from it. A
  packet that fails to load ends the loop after its identifier was assigned; the
  dictionaries behind it are not touched. A \<^verbatim>\<open>Packet\<close> keeps the reference to its
  dictionary; it is given here what the dictionary holds when the packet is constructed,
  which is what the dictionary holds when the constructor of the device returns
  (\<open>init_packets_Inr\<close> below), since a dictionary with an identifier is not written again.
\<close>

fun init_packets ::
  "nat \<Rightarrow> nat list \<Rightarrow> Packet list \<Rightarrow> heap \<Rightarrow> heap \<times> (error + Packet list)"
where
  "init_packets i [] pkts h = (h, Inr pkts)"
| "init_packets i (a # rest) pkts h =
     (case Packet_init (assign_function_id i (h a)) of
        Inl e \<Rightarrow> (h(a := assign_function_id i (h a)), Inl e)
      | Inr pkt \<Rightarrow>
          init_packets (i + 1) rest (pkts @ [pkt]) (h(a := assign_function_id i (h a))))"

text \<open>The second loop (lines 305 to 311).\<close>

fun sort_packets ::
  "Packet list \<Rightarrow> Packet list \<Rightarrow> Packet list \<Rightarrow> error + (Packet list \<times> Packet list)"
where
  "sort_packets [] fs cs = Inr (fs, cs)"
| "sort_packets (pkt # rest) fs cs =
     (if get_type pkt = ''function'' then sort_packets rest (fs @ [pkt]) cs
      else if get_type pkt = ''callback'' then sort_packets rest fs (cs @ [pkt])
      else Inl (ValueError (''Invalid packet type '' @ get_type pkt)))"

definition Device_init :: "nat com \<Rightarrow> heap \<Rightarrow> heap \<times> (error + Device)" where
  "Device_init c h =
     (case init_packets 0 (packets c) [] h of
        (h', r) \<Rightarrow>
          (h',
           case r of
             Inl e \<Rightarrow> Inl e
           | Inr pkts \<Rightarrow>
               (case sort_packets pkts [] [] of
                  Inl e \<Rightarrow> Inl e
                | Inr (fs, cs) \<Rightarrow>
                    Inr \<lparr>com = c, all_packets = pkts,
                         function_packets = fs, callback_packets = cs\<rparr>)))"




definition get_packets :: "Device \<Rightarrow> string option \<Rightarrow> error + Packet list" where
  "get_packets self typ =
     (case typ of
        None \<Rightarrow> Inr (all_packets self)
      | Some t \<Rightarrow>
          if t = ''function'' then Inr (function_packets self)
          else if t = ''callback'' then Inr (callback_packets self)
          else Inl (ValueError (''Invalid packet type '' @ t)))"

definition get_callback_count :: "Device \<Rightarrow> nat" where
  "get_callback_count self = length (callback_packets self)"

section \<open>The driver (common.py, lines 208 to 229)\<close>

text \<open>
  \<^verbatim>\<open>generate\<close> runs over the files of the directory \<^verbatim>\<open>configs\<close>. What it reads and
  writes outside itself is explicit here:
  \<^item> \<open>configs\<close> is the listing of the directory;
  \<^item> \<open>common\<close> is the list \<^verbatim>\<open>common_packets\<close> of the module \<^verbatim>\<open>brick_commonconfig\<close>,
    \<open>None\<close> when importing it or reading the attribute fails;
  \<^item> the modules of the configurations are a map from module names to the dictionary
    \<^verbatim>\<open>com\<close> of each: Python imports a module once and hands out the same module, and the
    same dictionary, ever after, so the map is state that a run reads and leaves changed;
  \<^item> \<open>make_files\<close> is the caller's function. It is given the dictionary and may change
    it, may change a world \<open>'w\<close> of its own (the files it writes), and may raise.
  The packets of a list are references to packet dictionaries, which the driver moves
  and never reads: the type \<open>'p\<close>. What the driver prints is left out.
\<close>

type_synonym ('p, 'w) driver_state = "(string \<Rightarrow> 'p com option) \<times> 'w"

definition config_module :: "string \<Rightarrow> string" where
  "config_module config = take (length config - 3) config"

text \<open>Lines 215 to 220: the common packets, empty unless the file is listed and its import succeeds.\<close>

definition common_packets :: "string list \<Rightarrow> 'p list option \<Rightarrow> 'p list" where
  "common_packets configs common =
     (if ''brick_commonconfig.py'' \<in> set configs
      then (case common of None \<Rightarrow> [] | Some ps \<Rightarrow> ps) else [])"

text \<open>Lines 226 to 228: the merge, behind its two conditions.\<close>

definition merge_common :: "string \<Rightarrow> 'p list \<Rightarrow> 'p com \<Rightarrow> 'p com" where
  "merge_common config cps c =
     (if sublist ''brick_'' config \<and> common_included c = None
      then c\<lparr>packets := packets c @ cps, common_included := Some True\<rparr>
      else c)"

text \<open>
  The loop of lines 222 to 229. A module that cannot be imported and a \<open>make_files\<close>
  that raises end the run; what was written until then stays written.
\<close>

fun generate_loop ::
  "('p com \<Rightarrow> 'w \<Rightarrow> 'p com \<times> 'w \<times> error option) \<Rightarrow> 'p list \<Rightarrow> string list \<Rightarrow>
   ('p, 'w) driver_state \<Rightarrow> ('p, 'w) driver_state \<times> error option"
where
  "generate_loop make_files cps [] s = (s, None)"
| "generate_loop make_files cps (config # rest) s =
     (if suffix ''_config.py'' config then
        (case fst s (config_module config) of
           None \<Rightarrow> (s, Some (ImportError (config_module config)))
         | Some c \<Rightarrow>
             (case make_files (merge_common config cps c) (snd s) of
                (c', w', raised) \<Rightarrow>
                  (case raised of
                     Some e \<Rightarrow> (((fst s)(config_module config \<mapsto> c'), w'), Some e)
                   | None \<Rightarrow>
                       generate_loop make_files cps rest
                         ((fst s)(config_module config \<mapsto> c'), w'))))
      else generate_loop make_files cps rest s)"

definition generate ::
  "('p com \<Rightarrow> 'w \<Rightarrow> 'p com \<times> 'w \<times> error option) \<Rightarrow> string list \<Rightarrow> 'p list option \<Rightarrow>
   ('p, 'w) driver_state \<Rightarrow> ('p, 'w) driver_state \<times> error option"
where
  "generate make_files configs common s =
     generate_loop make_files (common_packets configs common)
       (remove1 ''brick_commonconfig.py'' configs) s"

section \<open>Headers of generated files (common.py, lines 33 to 59 and 96 to 104)\<close>

text \<open>
  The templates \<^verbatim>\<open>gen_text_star\<close> and \<^verbatim>\<open>gen_text_rst\<close>, as functions of what
  \<^verbatim>\<open>format\<close> puts for \<^verbatim>\<open>{0}\<close>.
\<close>

definition gen_text_star :: "string \<Rightarrow> string" where
  "gen_text_star date =
     ''/* ***********************************************************\<newline>'' @
     '' * This file was automatically generated on '' @ date @
     ''.      *\<newline>'' @
     '' *                                                           *\<newline>'' @
     '' * If you have a bugfix for this file and want to commit it, *\<newline>'' @
     '' * please fix the bug in the generator. You can find a link  *\<newline>'' @
     '' * to the generator git on tinkerforge.com                   *\<newline>'' @
     '' *************************************************************/\<newline>''"

definition gen_text_rst :: "string \<Rightarrow> string" where
  "gen_text_rst date =
     ''..\<newline>'' @
     '' #############################################################\<newline>'' @
     '' # This file was automatically generated on '' @ date @
     ''.      #\<newline>'' @
     '' #                                                           #\<newline>'' @
     '' # If you have a bugfix for this file and want to commit it, #\<newline>'' @
     '' # please fix the bug in the generator. You can find a link  #\<newline>'' @
     '' # to the generator git on tinkerforge.com                   #\<newline>'' @
     '' #############################################################\<newline>''"


section \<open>The Java bindings (java/generate_java_bindings.py)\<close>

text \<open>
  \<^verbatim>\<open>get_java_import\<close> (lines 36 to 49) reads the clock as well, and the version of the
  change log: \<open>version\<close> is what \<^verbatim>\<open>get_changelog_version\<close> returns, \<open>None\<close> for a
  change log without a version line, which \<^verbatim>\<open>*version\<close> cannot unpack.
\<close>

definition get_java_import :: "string \<Rightarrow> (string \<times> string \<times> string) option \<Rightarrow> error + string" where
  "get_java_import date version =
     (case version of
        None \<Rightarrow> Inl TypeError
      | Some v \<Rightarrow>
          Inr (gen_text_star date @ ''\<newline>'' @
               ''package com.tinkerforge;\<newline>'' @
               ''\<newline>'' @
               ''import java.nio.ByteBuffer;\<newline>'' @
               ''import java.nio.ByteOrder;\<newline>'' @
               ''import java.util.concurrent.CopyOnWriteArrayList;\<newline>'' @
               ''import java.util.Arrays;\<newline>'' @
               ''import java.util.List;\<newline>''))"

text \<open>
  \<^verbatim>\<open>get_java_response_expected\<close> (lines 188 to 207). The template \<^verbatim>\<open>re\<close>, the
  value \<^verbatim>\<open>setto\<close> of a function packet, and the two loops that append to \<^verbatim>\<open>res\<close>.
\<close>

definition re_format :: "string \<Rightarrow> string \<Rightarrow> string" where
  "re_format name_upper setto =
     TAB @ TAB @ ''responseExpected[IPConnection.unsignedByte('' @ name_upper @ '')] = '' @ setto
       @ ''\<newline>''"

definition function_setto :: "Packet \<Rightarrow> error + string" where
  "function_setto pkt =
     (case get_elements pkt (Some ''out'') of
        Inl e \<Rightarrow> Inl e
      | Inr outs \<Rightarrow>
          Inr (if length outs > 0 then ''RESPONSE_EXPECTED_FLAG_ALWAYS_TRUE;''
               else if fst (get_doc pkt) = ''ccf'' then ''RESPONSE_EXPECTED_FLAG_TRUE;''
               else ''RESPONSE_EXPECTED_FLAG_FALSE;''))"

fun response_expected_functions :: "string \<Rightarrow> Packet list \<Rightarrow> error + string" where
  "response_expected_functions res [] = Inr res"
| "response_expected_functions res (pkt # rest) =
     (case function_setto pkt of
        Inl e \<Rightarrow> Inl e
      | Inr setto \<Rightarrow>
          response_expected_functions
            (res @ re_format (''FUNCTION_'' @ get_upper_case_name pkt) setto) rest)"

fun response_expected_callbacks :: "string \<Rightarrow> Packet list \<Rightarrow> string" where
  "response_expected_callbacks res [] = res"
| "response_expected_callbacks res (pkt # rest) =
     response_expected_callbacks
       (res @ re_format (''CALLBACK_'' @ get_upper_case_name pkt)
                ''RESPONSE_EXPECTED_FLAG_ALWAYS_FALSE;'') rest"

definition get_java_response_expected :: "Device \<Rightarrow> error + string" where
  "get_java_response_expected self =
     (case get_packets self (Some ''function'') of
        Inl e \<Rightarrow> Inl e
      | Inr fs \<Rightarrow>
          (case response_expected_functions [] fs of
             Inl e \<Rightarrow> Inl e
           | Inr res \<Rightarrow>
               (case get_packets self (Some ''callback'') of
                  Inl e \<Rightarrow> Inl e
                | Inr cs \<Rightarrow> Inr (response_expected_callbacks res cs))))"



text \<open>
  The elements of the Java generator are objects of the class
  \<^verbatim>\<open>java_common.JavaElement\<close>, which is not among the sources. An element is taken as
  the record of what its methods return: \<^verbatim>\<open>get_headless_camel_case_name\<close>,
  \<^verbatim>\<open>get_type\<close>, \<^verbatim>\<open>get_cardinality\<close>, \<^verbatim>\<open>get_java_type\<close>,
  \<^verbatim>\<open>get_java_byte_buffer_storage_type\<close> and \<^verbatim>\<open>get_java_byte_buffer_method_suffix\<close>.
\<close>

record java_element =
  headless_camel_case_name :: string
  element_type :: string
  cardinality :: int
  java_type :: string
  java_byte_buffer_storage_type :: string
  java_byte_buffer_method_suffix :: string

text \<open>
  \<^verbatim>\<open>get_java_methods\<close>, lines 359 to 402: the templates \<^verbatim>\<open>loop\<close>, \<^verbatim>\<open>string_loop\<close>
  and \<^verbatim>\<open>bbput\<close>, and the statements that write the in-elements of a function into the
  byte buffer of its request.
\<close>

definition methods_loop :: "string \<Rightarrow> string \<Rightarrow> string" where
  "methods_loop n body =
     TAB @ TAB @ ''for(int i = 0; i < '' @ n @ ''; i++) {\<newline>'' @ body @ ''\<newline>''
       @ TAB @ TAB @ ''}\<newline>''"

definition string_loop :: "string \<Rightarrow> string" where
  "string_loop body =
     TAB @ TAB @ ''try {\<newline>'' @ TAB @ TAB @ body @ ''\<newline>''
       @ TAB @ TAB @ TAB @ ''} catch(Exception e) {\<newline>''
       @ TAB @ TAB @ TAB @ TAB @ ''bb.put((byte)0);\<newline>''
       @ TAB @ TAB @ TAB @ ''}''"

definition bbput :: "string \<Rightarrow> string \<Rightarrow> string \<Rightarrow> string" where
  "bbput sfx cast name = TAB @ TAB @ ''bb.put'' @ sfx @ ''('' @ cast @ name @ '');''"

definition bbput_format :: "java_element \<Rightarrow> string" where
  "bbput_format element =
     (let name = (if element_type element = ''bool''
                  then ''('' @ headless_camel_case_name element @ '' ? 1 : 0)''
                  else headless_camel_case_name element);
          cast = (if java_byte_buffer_storage_type element \<noteq> java_type element
                  then ''('' @ java_byte_buffer_storage_type element @ '')'' else '''');
          put = bbput (java_byte_buffer_method_suffix element) cast name
      in if cardinality element > 1
         then methods_loop (str_int (cardinality element))
                (TAB @ (if element_type element = ''string''
                        then string_loop (replace put '');'' ''.charAt(i));'')
                        else replace put '');'' ''[i]);''))
         else put)"

fun java_bbputs :: "string \<Rightarrow> java_element list \<Rightarrow> string" where
  "java_bbputs bbputs [] = bbputs"
| "java_bbputs bbputs (element # rest) =
     java_bbputs (bbputs @ bbput_format element @ ''\<newline>'') rest"

text \<open>
  \<^verbatim>\<open>get_java_bbgets\<close>, lines 520 to 583: the statements that read the out-elements
  from the byte buffer of a response, and the name \<^verbatim>\<open>bbret\<close> of the last of them,
  which is unbound when there is no out-element.
\<close>

definition bbget_other ::
  "string \<Rightarrow> string \<Rightarrow> string \<Rightarrow> string \<Rightarrow> string \<Rightarrow> string \<Rightarrow> string \<Rightarrow> string"
where
  "bbget_other a0 a1 a2 a3 a4 a5 a6 =
     TAB @ TAB @ a0 @ a1 @ a2 @ '' = '' @ a3 @ ''(bb.get'' @ a4 @ ''()'' @ a5 @ '')'' @ a6 @ '';''"

definition bbget_string ::
  "string \<Rightarrow> string \<Rightarrow> string \<Rightarrow> string \<Rightarrow> string \<Rightarrow> string \<Rightarrow> string \<Rightarrow> string"
where
  "bbget_string a0 a1 a2 a3 a4 a5 a6 =
     TAB @ TAB @ a0 @ a1 @ a2 @ '' = '' @ a3 @ ''(bb'' @ a4 @ a5 @ '')'' @ a6 @ '';''"

definition new_arr :: "string \<Rightarrow> string \<Rightarrow> string \<Rightarrow> string" where
  "new_arr a0 a1 a2 = a0 @ ''[] '' @ a1 @ '' = new '' @ a0 @ ''['' @ a2 @ ''];''"

definition bbgets_loop :: "string \<Rightarrow> string \<Rightarrow> string \<Rightarrow> string" where
  "bbgets_loop n body arr =
     TAB @ TAB @ arr @ ''for(int i = 0; i < '' @ n @ ''; i++) {\<newline>'' @ body @ ''\<newline>''
       @ TAB @ TAB @ ''}\<newline>''"

definition bbget_format :: "bool \<Rightarrow> java_element \<Rightarrow> string" where
  "bbget_format with_obj element =
     (let typ = (if \<not> with_obj then java_type element @ '' '' else '''');
          bbret = headless_camel_case_name element;
          obj = (if with_obj then ''obj.'' else '''');
          cast = (if element_type element = ''uint8'' then ''IPConnection.unsignedByte''
                  else if element_type element = ''uint16'' then ''IPConnection.unsignedShort''
                  else if element_type element = ''uint32'' then ''IPConnection.unsignedInt''
                  else if element_type element = ''bool'' then ''''
                  else if element_type element = ''char'' then ''(char)''
                  else if element_type element = ''string'' then ''IPConnection.string''
                  else '''');
          cast_extra = (if element_type element = ''string''
                        then '', '' @ str_int (cardinality element) else '''');
          boolean = (if element_type element = ''bool'' then '' != 0'' else '''');
          format_typ = (if \<not> cardinality element > 1
                            \<or> (element_type element = ''string'' \<and> \<not> with_obj)
                        then typ else '''');
          got = (if element_type element = ''string''
                 then bbget_string format_typ obj bbret cast
                        (java_byte_buffer_method_suffix element) cast_extra boolean
                 else bbget_other format_typ obj bbret cast
                        (java_byte_buffer_method_suffix element) cast_extra boolean)
      in if cardinality element > 1 \<and> element_type element \<noteq> ''string''
         then (if with_obj
               then bbgets_loop (str_int (cardinality element))
                      (TAB @ replace got '' ='' ''[i] ='') ''''
               else bbgets_loop (str_int (cardinality element))
                      (TAB @ replace got '' ='' ''[i] ='')
                      (new_arr (replace typ '' '' '''') bbret (str_int (cardinality element))
                         @ ''\<newline>'' @ TAB @ TAB))
         else got)"

fun java_bbgets_loop :: "bool \<Rightarrow> string \<Rightarrow> java_element list \<Rightarrow> string" where
  "java_bbgets_loop with_obj bbgets [] = bbgets"
| "java_bbgets_loop with_obj bbgets (element # rest) =
     java_bbgets_loop with_obj (bbgets @ bbget_format with_obj element @ ''\<newline>'') rest"

definition get_java_bbgets :: "java_element list \<Rightarrow> bool \<Rightarrow> error + (string \<times> string)" where
  "get_java_bbgets outs with_obj =
     (if outs = [] then Inl (UnboundLocalError ''bbret'')
      else Inr (java_bbgets_loop with_obj [] outs, headless_camel_case_name (last outs)))"

section \<open>Notions used in the statements\<close>

definition good_direction :: "element \<Rightarrow> bool" where
  "good_direction e \<longleftrightarrow> element_3 e = ''in'' \<or> element_3 e = ''out''"

definition good_type :: "Packet \<Rightarrow> bool" where
  "good_type pkt \<longleftrightarrow> get_type pkt = ''function'' \<or> get_type pkt = ''callback''"

definition bad_packet :: "packet_cfg \<Rightarrow> bool" where
  "bad_packet p \<longleftrightarrow>
     name_mismatch p \<or> \<not> list_all good_direction (elements p)
     \<or> (packet_type p \<noteq> ''function'' \<and> packet_type p \<noteq> ''callback'')"

text \<open>
  The response expected flag in the words of the specification: a callback is always
  false; a function is always true when it has an out-element, and otherwise true or
  false as its override says. The generator writes a flag as the name of a constant,
  and one line for each packet.
\<close>
datatype response_expected_flag = FLAG_ALWAYS_TRUE | FLAG_TRUE | FLAG_FALSE | FLAG_ALWAYS_FALSE

definition spec_response_expected :: "bool \<Rightarrow> bool \<Rightarrow> bool \<Rightarrow> response_expected_flag" where
  "spec_response_expected callback has_out override =
     (if callback then FLAG_ALWAYS_FALSE
      else if has_out then FLAG_ALWAYS_TRUE
      else if override then FLAG_TRUE
      else FLAG_FALSE)"

fun flag_text :: "response_expected_flag \<Rightarrow> string" where
  "flag_text FLAG_ALWAYS_TRUE = ''RESPONSE_EXPECTED_FLAG_ALWAYS_TRUE;''"
| "flag_text FLAG_TRUE = ''RESPONSE_EXPECTED_FLAG_TRUE;''"
| "flag_text FLAG_FALSE = ''RESPONSE_EXPECTED_FLAG_FALSE;''"
| "flag_text FLAG_ALWAYS_FALSE = ''RESPONSE_EXPECTED_FLAG_ALWAYS_FALSE;''"

definition response_expected_entry :: "Packet \<Rightarrow> string" where
  "response_expected_entry pkt =
     re_format
       ((if get_type pkt = ''callback'' then ''CALLBACK_'' else ''FUNCTION_'')
          @ get_upper_case_name pkt)
       (flag_text
          (spec_response_expected (get_type pkt = ''callback'')
             (\<exists>e\<in>set (elements (packet pkt)). element_3 e = ''out'')
             (fst (doc (packet pkt)) = ''ccf'')))"

text \<open>
  The first position (from 0) at which an address stands in a list, and the heap after
  the assignment of line 302 has passed the addresses of a list, from position \<open>i\<close> on.
\<close>

definition first_position :: "nat \<Rightarrow> nat list \<Rightarrow> nat" where
  "first_position a as = length (takeWhile (\<lambda>x. x \<noteq> a) as)"

fun assign_heap :: "nat \<Rightarrow> nat list \<Rightarrow> heap \<Rightarrow> heap" where
  "assign_heap i [] h = h"
| "assign_heap i (a # rest) h = assign_heap (i + 1) rest (h(a := assign_function_id i (h a)))"

text \<open>
  A dictionary from which a packet can be constructed, and the addresses that the first
  loop of the constructor of a device reaches: all up to and with the first whose
  dictionary is not such.
\<close>

definition loads :: "packet_cfg \<Rightarrow> bool" where
  "loads p \<longleftrightarrow> \<not> name_mismatch p \<and> list_all good_direction (elements p)"

definition reached :: "nat list \<Rightarrow> heap \<Rightarrow> nat list" where
  "reached as h = take (Suc (length (takeWhile (\<lambda>a. loads (h a)) as))) as"

text \<open>
  What the driver may have done to the dictionary of a module: nothing to its packets
  and its marker, or the one merge of the common packets that sets the marker.
\<close>

definition merged_or_kept :: "'p list \<Rightarrow> 'p com \<Rightarrow> 'p com \<Rightarrow> bool" where
  "merged_or_kept cps c c' \<longleftrightarrow>
     (packets c' = packets c \<and> common_included c' = common_included c)
     \<or> (common_included c = None \<and> packets c' = packets c @ cps
        \<and> common_included c' = Some True)"

section \<open>Configurations to evaluate on\<close>

text \<open>
  The packets of \<^verbatim>\<open>configs/bricklet_piezo_speaker_config.py\<close>, the texts of their
  documentation left out.
\<close>

definition beep :: packet_cfg where
  "beep =
     \<lparr>packet_type = ''function'', packet_name = (''Beep'', ''beep''),
      elements = [(''duration'', ''uint32'', 1, ''in''), (''frequency'', ''uint16'', 1, ''in'')],
      doc = (''bf'', []), function_id = None\<rparr>"

definition morse_code :: packet_cfg where
  "morse_code =
     \<lparr>packet_type = ''function'', packet_name = (''MorseCode'', ''morse_code''),
      elements = [(''morse'', ''string'', 60, ''in''), (''frequency'', ''uint16'', 1, ''in'')],
      doc = (''bf'', []), function_id = None\<rparr>"

definition beep_finished :: packet_cfg where
  "beep_finished =
     \<lparr>packet_type = ''callback'', packet_name = (''BeepFinished'', ''beep_finished''),
      elements = [], doc = (''c'', []), function_id = None\<rparr>"

definition morse_code_finished :: packet_cfg where
  "morse_code_finished =
     \<lparr>packet_type = ''callback'', packet_name = (''MorseCodeFinished'', ''morse_code_finished''),
      elements = [], doc = (''c'', []), function_id = None\<rparr>"

text \<open>Further packets and configurations, written for the evaluations below.\<close>

definition calibrate :: packet_cfg where
  "calibrate =
     \<lparr>packet_type = ''function'', packet_name = (''Calibrate'', ''calibrate''),
      elements = [(''calibration'', ''bool'', 1, ''out'')],
      doc = (''af'', []), function_id = None\<rparr>"

definition set_volume :: packet_cfg where
  "set_volume =
     \<lparr>packet_type = ''function'', packet_name = (''SetVolume'', ''set_volume''),
      elements = [(''volume'', ''float32'', 1, ''in'')],
      doc = (''bf'', []), function_id = None\<rparr>"

definition get_state :: packet_cfg where
  "get_state =
     \<lparr>packet_type = ''function'', packet_name = (''GetState'', ''get_state''),
      elements = [(''state'', ''uint8'', 1, ''inout'')],
      doc = (''af'', []), function_id = None\<rparr>"

definition set_debounce_period :: packet_cfg where
  "set_debounce_period =
     \<lparr>packet_type = ''function'', packet_name = (''SetDebouncePeriod'', ''set_debounce_period''),
      elements = [(''debounce'', ''uint32'', 1, ''in'')],
      doc = (''ccf'', []), function_id = None\<rparr>"

definition state_changed :: packet_cfg where
  "state_changed =
     \<lparr>packet_type = ''callback'', packet_name = (''StateChanged'', ''state_changed''),
      elements = [(''state'', ''uint8'', 1, ''out'')],
      doc = (''c'', []), function_id = None\<rparr>"

text \<open>
  A heap with these dictionaries at its first addresses, eight as a configuration file
  writes them and two with the identifier 1, and configurations whose lists refer to
  them. The first is that of \<^verbatim>\<open>configs/bricklet_piezo_speaker_config.py\<close>, and in
  the third one dictionary is listed twice.
\<close>

definition dictionaries :: "packet_cfg list" where
  "dictionaries =
     [beep, morse_code, beep_finished, morse_code_finished, calibrate, get_state,
      set_debounce_period, state_changed,
      beep\<lparr>function_id := Some 1\<rparr>, morse_code\<lparr>function_id := Some 1\<rparr>]"

definition sample_heap :: heap where
  "sample_heap a = (if a < length dictionaries then dictionaries ! a else set_volume)"

definition configuration :: "nat list \<Rightarrow> nat com" where
  "configuration as =
     \<lparr>com_name = (''PiezoSpeaker'', ''piezo_speaker'', ''Piezo Speaker''),
      category = ''Bricklet'', packets = as, common_included = None\<rparr>"

definition piezo_speaker :: "nat com" where
  "piezo_speaker = configuration [0, 1, 2, 3]"

definition three_functions :: "nat com" where
  "three_functions = configuration [0, 1, 4]"

definition listed_twice :: "nat com" where
  "listed_twice = configuration [0, 0, 1]"

definition same_function_ids :: "nat com" where
  "same_function_ids = configuration [8, 9]"

definition wrong_direction :: "nat com" where
  "wrong_direction = configuration [0, 5, 1]"

definition four_flags :: "nat com" where
  "four_flags = configuration [0, 7, 4, 6]"

text \<open>
  Two modules of configurations, a brick and a bricklet, with numbers for their packets;
  the listing of their directory; and a \<open>make_files\<close> that only notes the name of the
  device it is called for.
\<close>

definition brick_master :: "nat com" where
  "brick_master =
     \<lparr>com_name = (''Master'', ''master'', ''Master''), category = ''Brick'',
      packets = [1, 2], common_included = None\<rparr>"

definition bricklet_piezo_speaker :: "nat com" where
  "bricklet_piezo_speaker =
     \<lparr>com_name = (''PiezoSpeaker'', ''piezo_speaker'', ''Piezo Speaker''),
      category = ''Bricklet'', packets = [3, 4, 5, 6], common_included = None\<rparr>"

definition two_modules :: "string \<Rightarrow> nat com option" where
  "two_modules =
     map_of [(''brick_master_config'', brick_master),
             (''bricklet_piezo_speaker_config'', bricklet_piezo_speaker)]"

definition listing :: "string list" where
  "listing =
     [''bricklet_piezo_speaker_config.py'', ''brick_commonconfig.py'', ''brick_master_config.py'']"

definition log_name :: "nat com \<Rightarrow> string list \<Rightarrow> nat com \<times> string list \<times> error option" where
  "log_name c w = (c, w @ [fst (com_name c)], None)"


text \<open>Elements of the Java generator: an array of four truth values, and an array of four bytes.\<close>

definition bool_array :: java_element where
  "bool_array =
     \<lparr>headless_camel_case_name = ''value'', element_type = ''bool'', cardinality = 4,
      java_type = ''boolean'', java_byte_buffer_storage_type = ''byte'',
      java_byte_buffer_method_suffix = ''''\<rparr>"

definition uint8_array :: java_element where
  "uint8_array =
     \<lparr>headless_camel_case_name = ''value'', element_type = ''uint8'', cardinality = 4,
      java_type = ''short'', java_byte_buffer_storage_type = ''byte'',
      java_byte_buffer_method_suffix = ''''\<rparr>"

section \<open>Properties of the type sizes\<close>

lemma map_of_types_cases:
  "map_of types typ =
     (if typ \<in> {''int8'', ''uint8'', ''bool'', ''char'', ''string''} then Some 1
      else if typ \<in> {''int16'', ''uint16''} then Some 2
      else if typ \<in> {''int32'', ''uint32'', ''float''} then Some 4
      else if typ \<in> {''int64'', ''uint64''} then Some 8
      else None)"
  by (simp add: types_def)


lemma get_type_size_Inr_iff:
  "(\<exists>n. get_type_size typ = Inr n) \<longleftrightarrow> typ \<in> fst ` set types"
  by (auto simp: get_type_size_def map_of_eq_None_iff split: option.splits
        dest: map_of_SomeD intro: rev_image_eqI)

section \<open>Properties of packets\<close>

lemma sort_elements_good:
  "list_all good_direction es \<Longrightarrow>
   sort_elements es ins outs =
     Inr (ins @ filter (\<lambda>e. element_3 e = ''in'') es,
          outs @ filter (\<lambda>e. element_3 e = ''out'') es)"
  by (induction es arbitrary: ins outs) (auto simp: good_direction_def)

lemma sort_elements_bad:
  "\<not> list_all good_direction es \<Longrightarrow> \<exists>m. sort_elements es ins outs = Inl (ValueError m)"
  by (induction es arbitrary: ins outs) (auto simp: good_direction_def)

lemma Packet_init_Inr:
  assumes "Packet_init p = Inr self"
  shows "packet self = p"
    and "all_elements self = elements p"
    and "in_elements self = filter (\<lambda>e. element_3 e = ''in'') (elements p)"
    and "out_elements self = filter (\<lambda>e. element_3 e = ''out'') (elements p)"
    and "\<not> name_mismatch p"
    and "list_all good_direction (elements p)"
proof -
  from assms have nm: "\<not> name_mismatch p"
    by (auto simp: Packet_init_def split: if_splits)
  have good: "list_all good_direction (elements p)"
  proof (rule ccontr)
    assume "\<not> list_all good_direction (elements p)"
    then obtain m where "sort_elements (elements p) [] [] = Inl (ValueError m)"
      using sort_elements_bad by blast
    with assms nm show False by (simp add: Packet_init_def)
  qed
  from sort_elements_good [OF good, of "[]" "[]"] assms nm
  have "self = \<lparr>packet = p, all_elements = elements p,
                 in_elements = filter (\<lambda>e. element_3 e = ''in'') (elements p),
                 out_elements = filter (\<lambda>e. element_3 e = ''out'') (elements p)\<rparr>"
    by (simp add: Packet_init_def)
  then show "packet self = p" "all_elements self = elements p"
    "in_elements self = filter (\<lambda>e. element_3 e = ''in'') (elements p)"
    "out_elements self = filter (\<lambda>e. element_3 e = ''out'') (elements p)"
    by simp_all
  show "\<not> name_mismatch p" by (rule nm)
  show "list_all good_direction (elements p)" by (rule good)
qed

lemma Packet_init_Inl_iff:
  "(\<exists>e. Packet_init p = Inl e) \<longleftrightarrow>
     name_mismatch p \<or> \<not> list_all good_direction (elements p)"
proof
  assume "\<exists>e. Packet_init p = Inl e"
  then show "name_mismatch p \<or> \<not> list_all good_direction (elements p)"
    by (auto simp: Packet_init_def sort_elements_good split: if_splits)
next
  assume "name_mismatch p \<or> \<not> list_all good_direction (elements p)"
  then show "\<exists>e. Packet_init p = Inl e"
    using sort_elements_bad [of "elements p" "[]" "[]"]
    by (auto simp: Packet_init_def)
qed

lemma add_element_sizes_known:
  "\<forall>e\<in>set es. get_type_size (element_1 e) = Inr (w (element_1 e)) \<Longrightarrow>
   add_element_sizes len es = Inr (len + (\<Sum>e\<leftarrow>es. w (element_1 e) * element_2 e))"
  by (induction es arbitrary: len) (auto simp: get_element_size_def)

lemma add_element_sizes_unknown:
  "\<exists>e\<in>set es. element_1 e \<notin> fst ` set types \<Longrightarrow>
   \<exists>t. add_element_sizes len es = Inl (KeyError t)"
proof (induction es arbitrary: len)
  case Nil
  then show ?case by simp
next
  case (Cons e es)
  show ?case
  proof (cases "get_type_size (element_1 e)")
    case (Inl err)
    then show ?thesis
      by (auto simp: get_element_size_def get_type_size_def split: option.splits)
  next
    case (Inr n)
    then have "element_1 e \<in> fst ` set types"
      using get_type_size_Inr_iff by blast
    with Cons.prems have "\<exists>e\<in>set es. element_1 e \<notin> fst ` set types" by auto
    from Cons.IH [OF this] Inr show ?thesis
      by (simp add: get_element_size_def)
  qed
qed

section \<open>Properties of the loops of the constructor of devices\<close>

lemma assign_function_id_fields [simp]:
  "packet_type (assign_function_id i p) = packet_type p"
  "packet_name (assign_function_id i p) = packet_name p"
  "elements (assign_function_id i p) = elements p"
  "doc (assign_function_id i p) = doc p"
  "function_id (assign_function_id i p) =
     Some (case function_id p of None \<Rightarrow> int i + 1 | Some n \<Rightarrow> n)"
  by (auto simp: assign_function_id_def)

lemma assign_function_id_restore:
  "(assign_function_id i p)\<lparr>function_id := function_id p\<rparr> = p"
  by (simp add: assign_function_id_def)

lemma assign_function_id_idem:
  "assign_function_id j (assign_function_id i p) = assign_function_id i p"
  by (simp add: assign_function_id_def)

lemma name_mismatch_assign [simp]:
  "name_mismatch (assign_function_id i p) = name_mismatch p"
  by (simp add: name_mismatch_def)

lemma loads_assign [simp]: "loads (assign_function_id i p) = loads p"
  by (simp add: loads_def)

lemma Packet_init_Inl_loads: "(\<exists>e. Packet_init p = Inl e) \<longleftrightarrow> \<not> loads p"
  by (simp add: Packet_init_Inl_iff loads_def)

lemma Packet_init_Inr_loads: "(\<exists>pkt. Packet_init p = Inr pkt) \<longleftrightarrow> loads p"
  using Packet_init_Inl_loads [of p] by (cases "Packet_init p") auto

lemma Packet_init_error: "Packet_init p = Inl e \<Longrightarrow> \<exists>m. e = ValueError m"
  using sort_elements_bad [of "elements p" "[]" "[]"]
    sort_elements_good [of "elements p" "[]" "[]"]
  by (cases "list_all good_direction (elements p)")
     (auto simp: Packet_init_def split: if_splits)

text \<open>The first position of an address in a list.\<close>

lemma first_position_Cons:
  "first_position a (x # xs) = (if x = a then 0 else Suc (first_position a xs))"
  by (simp add: first_position_def)

lemma first_position_nth:
  "a \<in> set as \<Longrightarrow> first_position a as < length as \<and> as ! first_position a as = a"
  by (induction as) (auto simp: first_position_Cons)

lemma first_position_distinct:
  "distinct as \<Longrightarrow> i < length as \<Longrightarrow> first_position (as ! i) as = i"
proof (induction as arbitrary: i)
  case Nil
  then show ?case by simp
next
  case (Cons x xs)
  then show ?case by (cases i) (auto simp: first_position_Cons)
qed

lemma first_position_take:
  assumes "a \<in> set (take k as)"
  shows "first_position a (take k as) = first_position a as"
proof -
  have "takeWhile (\<lambda>x. x \<noteq> a) (take k as @ drop k as) = takeWhile (\<lambda>x. x \<noteq> a) (take k as)"
    using assms by (intro takeWhile_append1 [of a]) auto
  then show ?thesis by (simp add: first_position_def)
qed

text \<open>The heap after the assignments: each listed dictionary is written at its first position.\<close>

lemma assign_heap_apply:
  "assign_heap i as h a =
     (if a \<in> set as then assign_function_id (i + first_position a as) (h a) else h a)"
proof (induction as arbitrary: i h)
  case Nil
  then show ?case by simp
next
  case (Cons x xs)
  show ?case
  proof (cases "x = a")
    case True
    then show ?thesis
      by (simp add: Cons.IH first_position_Cons assign_function_id_idem)
  next
    case False
    then show ?thesis
      by (simp add: Cons.IH first_position_Cons)
  qed
qed

lemma assign_heap_fields [simp]:
  "packet_type (assign_heap i as h a) = packet_type (h a)"
  "packet_name (assign_heap i as h a) = packet_name (h a)"
  "elements (assign_heap i as h a) = elements (h a)"
  "doc (assign_heap i as h a) = doc (h a)"
  by (simp_all add: assign_heap_apply)

lemma reached_Cons:
  "reached (a # rest) h = (if loads (h a) then a # reached rest h else [a])"
  by (simp add: reached_def)

lemma reached_cong:
  "(\<And>x. loads (h' x) = loads (h x)) \<Longrightarrow> reached as h' = reached as h"
  by (simp add: reached_def)

text \<open>The first loop: the heap it leaves, when it raises, and what it returns.\<close>

lemma init_packets_fst:
  "fst (init_packets i as pkts h) = assign_heap i (reached as h) h"
proof (induction as arbitrary: i pkts h)
  case Nil
  then show ?case by (simp add: reached_def)
next
  case (Cons a rest)
  let ?h1 = "h(a := assign_function_id i (h a))"
  have r: "reached rest ?h1 = reached rest h"
    by (rule reached_cong) simp
  show ?case
  proof (cases "Packet_init (assign_function_id i (h a))")
    case (Inl e)
    then have "\<not> loads (h a)"
      using Packet_init_Inl_loads [of "assign_function_id i (h a)"] by auto
    with Inl show ?thesis by (simp add: reached_Cons)
  next
    case (Inr pkt)
    then have ok: "loads (h a)"
      using Packet_init_Inr_loads [of "assign_function_id i (h a)"] by auto
    have "fst (init_packets i (a # rest) pkts h)
        = fst (init_packets (i + 1) rest (pkts @ [pkt]) ?h1)"
      using Inr by simp
    also have "\<dots> = assign_heap (i + 1) (reached rest ?h1) ?h1"
      by (rule Cons.IH)
    also have "\<dots> = assign_heap (i + 1) (reached rest h) ?h1"
      by (simp only: r)
    also have "\<dots> = assign_heap i (reached (a # rest) h) h"
      using ok by (simp add: reached_Cons)
    finally show ?thesis .
  qed
qed

lemma init_packets_Inl_iff:
  "(\<exists>e. snd (init_packets i as pkts h) = Inl e) \<longleftrightarrow> (\<exists>a\<in>set as. \<not> loads (h a))"
proof (induction as arbitrary: i pkts h)
  case Nil
  then show ?case by simp
next
  case (Cons a rest)
  let ?h1 = "h(a := assign_function_id i (h a))"
  have same: "\<And>x. loads (?h1 x) = loads (h x)" by simp
  show ?case
  proof (cases "Packet_init (assign_function_id i (h a))")
    case (Inl e)
    then have "\<not> loads (h a)"
      using Packet_init_Inl_loads [of "assign_function_id i (h a)"] by auto
    with Inl show ?thesis by auto
  next
    case (Inr pkt)
    then have ok: "loads (h a)"
      using Packet_init_Inr_loads [of "assign_function_id i (h a)"] by auto
    have "(\<exists>e. snd (init_packets i (a # rest) pkts h) = Inl e)
        \<longleftrightarrow> (\<exists>e. snd (init_packets (i + 1) rest (pkts @ [pkt]) ?h1) = Inl e)"
      using Inr by simp
    also have "\<dots> \<longleftrightarrow> (\<exists>x\<in>set rest. \<not> loads (?h1 x))"
      by (rule Cons.IH)
    also have "\<dots> \<longleftrightarrow> (\<exists>x\<in>set rest. \<not> loads (h x))"
      using same by simp
    finally show ?thesis using ok by auto
  qed
qed

lemma init_packets_error:
  "snd (init_packets i as pkts h) = Inl e \<Longrightarrow> \<exists>m. e = ValueError m"
proof (induction as arbitrary: i pkts h)
  case Nil
  then show ?case by simp
next
  case (Cons a rest)
  show ?case
  proof (cases "Packet_init (assign_function_id i (h a))")
    case (Inl e')
    with Cons.prems have "e = e'" by simp
    with Packet_init_error [OF Inl] show ?thesis by simp
  next
    case (Inr pkt)
    with Cons.prems
    have "snd (init_packets (i + 1) rest (pkts @ [pkt]) (h(a := assign_function_id i (h a)))) = Inl e"
      by simp
    from Cons.IH [OF this] show ?thesis .
  qed
qed

lemma init_packets_Inr:
  "init_packets i as pkts h = (h', Inr res) \<Longrightarrow>
   h' = assign_heap i as h \<and>
   (\<exists>new. res = pkts @ new \<and> list_all2 (\<lambda>a pkt. Packet_init (h' a) = Inr pkt) as new)"
proof (induction as arbitrary: i pkts h)
  case Nil
  then show ?case by simp
next
  case (Cons a rest)
  let ?h1 = "h(a := assign_function_id i (h a))"
  from Cons.prems obtain pkt where pk: "Packet_init (assign_function_id i (h a)) = Inr pkt"
    by (cases "Packet_init (assign_function_id i (h a))") auto
  with Cons.prems have run: "init_packets (i + 1) rest (pkts @ [pkt]) ?h1 = (h', Inr res)"
    by simp
  from Cons.IH [OF run] obtain new where h': "h' = assign_heap (i + 1) rest ?h1"
    and res: "res = (pkts @ [pkt]) @ new"
    and l2: "list_all2 (\<lambda>a pkt. Packet_init (h' a) = Inr pkt) rest new"
    by blast
  have "h' a = assign_function_id i (h a)"
    unfolding h' by (simp add: assign_heap_apply assign_function_id_idem)
  with pk have here: "Packet_init (h' a) = Inr pkt" by simp
  have "h' = assign_heap i (a # rest) h"
    using h' by simp
  moreover have "res = pkts @ (pkt # new)"
    using res by simp
  moreover have "list_all2 (\<lambda>a pkt. Packet_init (h' a) = Inr pkt) (a # rest) (pkt # new)"
    using here l2 by simp
  ultimately show ?case by blast
qed

lemma sort_packets_good:
  "list_all good_type pkts \<Longrightarrow>
   sort_packets pkts fs cs =
     Inr (fs @ filter (\<lambda>k. get_type k = ''function'') pkts,
          cs @ filter (\<lambda>k. get_type k = ''callback'') pkts)"
  by (induction pkts arbitrary: fs cs) (auto simp: good_type_def)

lemma sort_packets_bad:
  "\<not> list_all good_type pkts \<Longrightarrow> \<exists>m. sort_packets pkts fs cs = Inl (ValueError m)"
  by (induction pkts arbitrary: fs cs) (auto simp: good_type_def)

section \<open>Properties of devices\<close>

lemma Device_init_Inr:
  assumes "Device_init c h = (h', Inr d)"
  shows "h' = assign_heap 0 (packets c) h"
    and "com d = c"
    and "list_all2 (\<lambda>a pkt. Packet_init (h' a) = Inr pkt) (packets c) (all_packets d)"
    and "list_all good_type (all_packets d)"
    and "function_packets d = filter (\<lambda>k. get_type k = ''function'') (all_packets d)"
    and "callback_packets d = filter (\<lambda>k. get_type k = ''callback'') (all_packets d)"
proof -
  obtain h1 r where ip: "init_packets 0 (packets c) [] h = (h1, r)"
    by (cases "init_packets 0 (packets c) [] h")
  from assms ip obtain pkts where r: "r = Inr pkts"
    by (cases r) (auto simp: Device_init_def)
  from assms ip have h1: "h1 = h'"
    by (simp add: Device_init_def)
  from init_packets_Inr [of 0 "packets c" "[]" h h' pkts] ip r h1
  have heap: "h' = assign_heap 0 (packets c) h"
    and l2: "list_all2 (\<lambda>a pkt. Packet_init (h' a) = Inr pkt) (packets c) pkts"
    by auto
  have good: "list_all good_type pkts"
  proof (rule ccontr)
    assume "\<not> list_all good_type pkts"
    then obtain m where "sort_packets pkts [] [] = Inl (ValueError m)"
      using sort_packets_bad by blast
    with assms ip r show False by (simp add: Device_init_def)
  qed
  from sort_packets_good [OF good, of "[]" "[]"] assms ip r
  have d: "d = \<lparr>com = c, all_packets = pkts,
                function_packets = filter (\<lambda>k. get_type k = ''function'') pkts,
                callback_packets = filter (\<lambda>k. get_type k = ''callback'') pkts\<rparr>"
    by (auto simp: Device_init_def)
  show "h' = assign_heap 0 (packets c) h" by (rule heap)
  show "com d = c" using d by simp
  show "list_all2 (\<lambda>a pkt. Packet_init (h' a) = Inr pkt) (packets c) (all_packets d)"
    using l2 d by simp
  show "list_all good_type (all_packets d)" using good d by simp
  show "function_packets d = filter (\<lambda>k. get_type k = ''function'') (all_packets d)"
    using d by simp
  show "callback_packets d = filter (\<lambda>k. get_type k = ''callback'') (all_packets d)"
    using d by simp
qed

lemma Device_init_length:
  assumes "Device_init c h = (h', Inr d)"
  shows "length (all_packets d) = length (packets c)"
  using list_all2_lengthD [OF Device_init_Inr(3) [OF assms]] by simp

lemma Device_init_packet_nth:
  assumes "Device_init c h = (h', Inr d)" and "i < length (packets c)"
  shows "packet (all_packets d ! i) = h' (packets c ! i)"
proof -
  from list_all2_nthD [OF Device_init_Inr(3) [OF assms(1)] assms(2)]
  have "Packet_init (h' (packets c ! i)) = Inr (all_packets d ! i)" .
  from Packet_init_Inr(1) [OF this] show ?thesis .
qed

lemma Device_init_heap_nth:
  assumes "Device_init c h = (h', Inr d)" and "i < length (packets c)"
  shows "h' (packets c ! i) =
    assign_function_id (first_position (packets c ! i) (packets c)) (h (packets c ! i))"
  using assms(2) by (simp add: Device_init_Inr(1) [OF assms(1)] assign_heap_apply)

lemma Device_init_loaded:
  assumes "Device_init c h = (h', Inr d)" and "pkt \<in> set (all_packets d)"
  shows "\<exists>p. Packet_init p = Inr pkt"
proof -
  from assms(2) obtain i where i: "i < length (all_packets d)" "all_packets d ! i = pkt"
    by (auto simp: in_set_conv_nth)
  from list_all2_nthD2 [OF Device_init_Inr(3) [OF assms(1)] i(1)] i(2) show ?thesis
    by blast
qed

lemma map_get_function_id_None:
  assumes "Device_init c h = (h', Inr d)"
    and "\<forall>a\<in>set (packets c). function_id (h a) = None"
  shows "map get_function_id (all_packets d) =
    map (\<lambda>a. Inr (int (first_position a (packets c)) + 1)) (packets c)"
proof (rule nth_equalityI)
  show "length (map get_function_id (all_packets d)) =
        length (map (\<lambda>a. Inr (int (first_position a (packets c)) + 1)) (packets c))"
    using Device_init_length [OF assms(1)] by simp
next
  fix i assume "i < length (map get_function_id (all_packets d))"
  then have i: "i < length (packets c)" using Device_init_length [OF assms(1)] by simp
  then have "function_id (h (packets c ! i)) = None" using assms(2) by simp
  with Device_init_packet_nth [OF assms(1) i] Device_init_heap_nth [OF assms(1) i] i
    Device_init_length [OF assms(1)]
  show "map get_function_id (all_packets d) ! i =
        map (\<lambda>a. Inr (int (first_position a (packets c)) + 1)) (packets c) ! i"
    by (simp add: get_function_id_def)
qed

lemma first_position_inj:
  "inj_on (\<lambda>a. (Inr (int (first_position a as) + 1) :: error + int)) (set as)"
proof (rule inj_onI)
  fix a b assume a: "a \<in> set as" and b: "b \<in> set as"
    and "(Inr (int (first_position a as) + 1) :: error + int) = Inr (int (first_position b as) + 1)"
  then have "first_position a as = first_position b as" by simp
  with first_position_nth [OF a] first_position_nth [OF b] show "a = b" by metis
qed

lemma Device_init_Inl_iff:
  "(\<exists>e. snd (Device_init c h) = Inl e) \<longleftrightarrow> (\<exists>a\<in>set (packets c). bad_packet (h a))"
proof -
  obtain h1 r where ip: "init_packets 0 (packets c) [] h = (h1, r)"
    by (cases "init_packets 0 (packets c) [] h")
  show ?thesis
  proof (cases r)
    case (Inl e)
    then have "\<exists>e. snd (init_packets 0 (packets c) [] h) = Inl e" using ip by simp
    then have "\<exists>a\<in>set (packets c). \<not> loads (h a)"
      using init_packets_Inl_iff by blast
    then have "\<exists>a\<in>set (packets c). bad_packet (h a)"
      by (auto simp: bad_packet_def loads_def)
    moreover have "snd (Device_init c h) = Inl e"
      using ip Inl by (simp add: Device_init_def)
    ultimately show ?thesis by auto
  next
    case (Inr pkts)
    then have "\<not> (\<exists>e. snd (init_packets 0 (packets c) [] h) = Inl e)" using ip by simp
    then have ok: "\<forall>a\<in>set (packets c). loads (h a)"
      using init_packets_Inl_iff [of 0 "packets c" "[]" h] by blast
    from init_packets_Inr [of 0 "packets c" "[]" h h1 pkts] ip Inr
    have heap: "h1 = assign_heap 0 (packets c) h"
      and l2: "list_all2 (\<lambda>a pkt. Packet_init (h1 a) = Inr pkt) (packets c) pkts"
      by auto
    have types: "map get_type pkts = map (\<lambda>a. packet_type (h a)) (packets c)"
    proof (rule nth_equalityI)
      show "length (map get_type pkts) = length (map (\<lambda>a. packet_type (h a)) (packets c))"
        using list_all2_lengthD [OF l2] by simp
    next
      fix i assume "i < length (map get_type pkts)"
      then have i: "i < length (packets c)" using list_all2_lengthD [OF l2] by simp
      from list_all2_nthD [OF l2 i]
      have "Packet_init (h1 (packets c ! i)) = Inr (pkts ! i)" .
      from Packet_init_Inr(1) [OF this] have "packet (pkts ! i) = h1 (packets c ! i)" .
      then show "map get_type pkts ! i = map (\<lambda>a. packet_type (h a)) (packets c) ! i"
        using i list_all2_lengthD [OF l2] by (simp add: get_type_def heap)
    qed
    have "list_all good_type pkts \<longleftrightarrow>
          (\<forall>t\<in>set (map get_type pkts). t = ''function'' \<or> t = ''callback'')"
      by (auto simp: list_all_iff good_type_def)
    also have "\<dots> \<longleftrightarrow> (\<forall>a\<in>set (packets c).
        packet_type (h a) = ''function'' \<or> packet_type (h a) = ''callback'')"
      unfolding types by auto
    finally have good: "list_all good_type pkts \<longleftrightarrow>
      (\<forall>a\<in>set (packets c). packet_type (h a) = ''function'' \<or> packet_type (h a) = ''callback'')" .
    show ?thesis
    proof (cases "list_all good_type pkts")
      case True
      then have "\<exists>d. snd (Device_init c h) = Inr d"
        using ip Inr sort_packets_good [OF True, of "[]" "[]"] by (simp add: Device_init_def)
      moreover from True good ok have "\<not> (\<exists>a\<in>set (packets c). bad_packet (h a))"
        by (auto simp: bad_packet_def loads_def)
      ultimately show ?thesis by auto
    next
      case False
      then obtain m where "sort_packets pkts [] [] = Inl (ValueError m)"
        using sort_packets_bad by blast
      then have "snd (Device_init c h) = Inl (ValueError m)"
        using ip Inr by (simp add: Device_init_def)
      moreover from False good have "\<exists>a\<in>set (packets c). bad_packet (h a)"
        by (auto simp: bad_packet_def)
      ultimately show ?thesis by auto
    qed
  qed
qed

lemma Device_init_error:
  assumes "snd (Device_init c h) = Inl e"
  shows "\<exists>m. e = ValueError m"
proof -
  obtain h1 r where ip: "init_packets 0 (packets c) [] h = (h1, r)"
    by (cases "init_packets 0 (packets c) [] h")
  show ?thesis
  proof (cases r)
    case (Inl e')
    with ip assms have "e = e'" by (simp add: Device_init_def)
    moreover from ip Inl have "snd (init_packets 0 (packets c) [] h) = Inl e'" by simp
    ultimately show ?thesis using init_packets_error by blast
  next
    case (Inr pkts)
    show ?thesis
    proof (cases "list_all good_type pkts")
      case True
      with assms ip Inr sort_packets_good [OF True, of "[]" "[]"] show ?thesis
        by (simp add: Device_init_def)
    next
      case False
      then obtain m where "sort_packets pkts [] [] = Inl (ValueError m)"
        using sort_packets_bad by blast
      with assms ip Inr show ?thesis by (auto simp: Device_init_def)
    qed
  qed
qed

lemma Device_init_fst:
  "fst (Device_init c h) = assign_heap 0 (reached (packets c) h) h"
  using init_packets_fst [of 0 "packets c" "[]" h]
  by (cases "init_packets 0 (packets c) [] h") (simp add: Device_init_def)

lemma first_position_reached:
  "a \<in> set (reached as h) \<Longrightarrow> first_position a (reached as h) = first_position a as"
  unfolding reached_def by (rule first_position_take)


section \<open>Claims\<close>

subsection \<open>Frame lengths\<close>

text \<open>
  C1, as amended. For every packet that \<^verbatim>\<open>Packet.__init__\<close> accepts (so all its
  elements have direction \<^verbatim>\<open>in\<close> or \<^verbatim>\<open>out\<close>): when the size lookup succeeds on the
  type of every in-element, giving the widths \<open>w\<close>, \<^verbatim>\<open>get_request_length\<close> returns 4
  plus the sum over the in-elements of width times cardinality; when it succeeds on the
  type of every out-element, \<^verbatim>\<open>get_response_length\<close> returns 4 plus the same sum over
  the out-elements. The lookup succeeds exactly on the twelve keys of the table
  (\<open>get_type_size_Inr_iff\<close>), and a length fails with the lookup's \<^verbatim>\<open>KeyError\<close>
  otherwise (\<open>add_element_sizes_unknown\<close>).
\<close>

theorem packet_lengths:
  assumes "Packet_init p = Inr self"
  shows "((\<forall>e\<in>set (filter (\<lambda>e. element_3 e = ''in'') (elements p)).
             get_type_size (element_1 e) = Inr (w (element_1 e))) \<longrightarrow>
          get_request_length self =
            Inr (4 + (\<Sum>e\<leftarrow>filter (\<lambda>e. element_3 e = ''in'') (elements p).
                        w (element_1 e) * element_2 e)))
       \<and> ((\<forall>e\<in>set (filter (\<lambda>e. element_3 e = ''out'') (elements p)).
             get_type_size (element_1 e) = Inr (w (element_1 e))) \<longrightarrow>
          get_response_length self =
            Inr (4 + (\<Sum>e\<leftarrow>filter (\<lambda>e. element_3 e = ''out'') (elements p).
                        w (element_1 e) * element_2 e)))"
  using add_element_sizes_known [of _ w 4] Packet_init_Inr(3,4) [OF assms]
  by (simp add: get_request_length_def get_response_length_def)

text \<open>
  The packet \<^verbatim>\<open>Beep\<close>, one \<^verbatim>\<open>uint32\<close> and one \<^verbatim>\<open>uint16\<close> in-element and no
  out-element: the request is 10 bytes long, the response 4.
\<close>

theorem packet_lengths_beep:
  "Packet_init beep =
     Inr \<lparr>packet = beep, all_elements = elements beep, in_elements = elements beep,
          out_elements = []\<rparr>
   \<and> get_request_length
        \<lparr>packet = beep, all_elements = elements beep, in_elements = elements beep,
         out_elements = []\<rparr> = Inr 10
   \<and> get_response_length
        \<lparr>packet = beep, all_elements = elements beep, in_elements = elements beep,
         out_elements = []\<rparr> = Inr 4"
proof -
  have init: "Packet_init beep =
     Inr \<lparr>packet = beep, all_elements = elements beep, in_elements = elements beep,
          out_elements = []\<rparr>"
    by code_simp
  have sizes: "get_type_size ''uint32'' = Inr 4" "get_type_size ''uint16'' = Inr 2"
    by (simp_all add: get_type_size_def types_def)
  from packet_lengths [OF init, of "\<lambda>t. if t = ''uint32'' then 4 else 2"] sizes init
  show ?thesis
    by (simp add: beep_def element_1_def element_2_def element_3_def)
qed

text \<open>
  C1 as stated fails where an element has a type outside the table, as the
  \<^verbatim>\<open>float32\<close> of the specification is: the packet is accepted, and its request
  length is a \<^verbatim>\<open>KeyError\<close>, not 8.
\<close>

theorem request_length_float32:
  "Packet_init set_volume =
     Inr \<lparr>packet = set_volume, all_elements = elements set_volume,
          in_elements = elements set_volume, out_elements = []\<rparr>
   \<and> get_request_length
        \<lparr>packet = set_volume, all_elements = elements set_volume,
         in_elements = elements set_volume, out_elements = []\<rparr> = Inl (KeyError ''float32'')"
  by code_simp

subsection \<open>The width table\<close>

text \<open>
  C2, as amended. \<^verbatim>\<open>get_type_size\<close> is the table over twelve names:
  \<^verbatim>\<open>int8\<close>, \<^verbatim>\<open>uint8\<close>, \<^verbatim>\<open>bool\<close>, \<^verbatim>\<open>char\<close> and \<^verbatim>\<open>string\<close> are 1 byte wide,
  \<^verbatim>\<open>int16\<close> and \<^verbatim>\<open>uint16\<close> 2, \<^verbatim>\<open>int32\<close>, \<^verbatim>\<open>uint32\<close> and \<^verbatim>\<open>float\<close> 4,
  \<^verbatim>\<open>int64\<close> and \<^verbatim>\<open>uint64\<close> 8; for every other name the lookup raises
  \<^verbatim>\<open>KeyError\<close>.
\<close>

theorem get_type_size_table:
  "get_type_size typ =
     (if typ \<in> {''int8'', ''uint8'', ''bool'', ''char'', ''string''} then Inr 1
      else if typ \<in> {''int16'', ''uint16''} then Inr 2
      else if typ \<in> {''int32'', ''uint32'', ''float''} then Inr 4
      else if typ \<in> {''int64'', ''uint64''} then Inr 8
      else Inl (KeyError typ))"
  unfolding get_type_size_def map_of_types_cases by simp

theorem get_type_size_table_witness:
  "get_type_size ''uint16'' = Inr 2 \<and> get_type_size ''float'' = Inr 4
   \<and> get_type_size ''double'' = Inl (KeyError ''double'')"
  using get_type_size_table [of "''uint16''"] get_type_size_table [of "''float''"]
    get_type_size_table [of "''double''"]
  by simp

text \<open>
  C2 as stated names \<^verbatim>\<open>float32\<close> as a type of width 4; the table has no such
  key, its 4 byte floating point type is \<^verbatim>\<open>float\<close>.
\<close>

theorem get_type_size_float32:
  "get_type_size ''float32'' = Inl (KeyError ''float32'') \<and> get_type_size ''float'' = Inr 4"
  by (simp add: get_type_size_def types_def)

subsection \<open>Function identifiers\<close>

text \<open>
  C3, as amended. A device that \<^verbatim>\<open>Device.__init__\<close> constructs has one packet for
  each position of the list of the configuration, in the declared order, reading the
  dictionary that stands there. A dictionary without a function identifier receives
  the 1-based position at which it stands first in the list, and a dictionary with one
  keeps it; nothing else of a dictionary changes. Where no dictionary is listed
  twice, the identifier that a dictionary without one receives is the 1-based position
  of the packet.
\<close>

theorem Device_init_function_ids:
  assumes "Device_init c h = (h', Inr d)"
  shows "length (all_packets d) = length (packets c) \<and>
    (\<forall>i<length (packets c).
       packet (all_packets d ! i) = h' (packets c ! i) \<and>
       get_function_id (all_packets d ! i) =
         Inr (case function_id (h (packets c ! i)) of
                None \<Rightarrow> int (first_position (packets c ! i) (packets c)) + 1
              | Some n \<Rightarrow> n) \<and>
       (h' (packets c ! i))\<lparr>function_id := function_id (h (packets c ! i))\<rparr> = h (packets c ! i) \<and>
       (distinct (packets c) \<longrightarrow>
          get_function_id (all_packets d ! i) =
            Inr (case function_id (h (packets c ! i)) of None \<Rightarrow> int i + 1 | Some n \<Rightarrow> n)))"
proof (intro conjI allI impI)
  show "length (all_packets d) = length (packets c)"
    by (rule Device_init_length [OF assms])
next
  fix i assume i: "i < length (packets c)"
  note pkt = Device_init_packet_nth [OF assms i]
  note heap = Device_init_heap_nth [OF assms i]
  show "packet (all_packets d ! i) = h' (packets c ! i)"
    by (rule pkt)
  show ids: "get_function_id (all_packets d ! i) =
      Inr (case function_id (h (packets c ! i)) of
             None \<Rightarrow> int (first_position (packets c ! i) (packets c)) + 1
           | Some n \<Rightarrow> n)"
    by (simp add: get_function_id_def pkt heap)
  show "(h' (packets c ! i))\<lparr>function_id := function_id (h (packets c ! i))\<rparr> = h (packets c ! i)"
    by (simp add: heap assign_function_id_restore)
  assume "distinct (packets c)"
  from first_position_distinct [OF this i] ids
  show "get_function_id (all_packets d ! i) =
      Inr (case function_id (h (packets c ! i)) of None \<Rightarrow> int i + 1 | Some n \<Rightarrow> n)"
    by (simp split: option.split)
qed

text \<open>
  Three function packets without identifiers, each dictionary listed once, receive 1, 2
  and 3 in the declared order.
\<close>

theorem Device_init_function_ids_three:
  "\<not> isl (snd (Device_init three_functions sample_heap))
   \<and> length (all_packets (projr (snd (Device_init three_functions sample_heap)))) = 3
   \<and> get_function_id (all_packets (projr (snd (Device_init three_functions sample_heap))) ! 0)
       = Inr 1
   \<and> get_function_id (all_packets (projr (snd (Device_init three_functions sample_heap))) ! 1)
       = Inr 2
   \<and> get_function_id (all_packets (projr (snd (Device_init three_functions sample_heap))) ! 2)
       = Inr 3"
proof -
  have loaded: "\<not> isl (snd (Device_init three_functions sample_heap))"
    by code_simp
  then have init: "Device_init three_functions sample_heap =
      (fst (Device_init three_functions sample_heap),
       Inr (projr (snd (Device_init three_functions sample_heap))))"
    by (simp add: prod_eq_iff)
  have cfg: "packets three_functions = [0, 1, 4]"
    by (simp add: three_functions_def configuration_def)
  have dist: "distinct (packets three_functions)"
    unfolding cfg by simp
  have ids: "function_id (sample_heap 0) = None" "function_id (sample_heap (Suc 0)) = None"
    "function_id (sample_heap 4) = None"
    by (simp_all add: sample_heap_def dictionaries_def beep_def morse_code_def calibrate_def)
  from Device_init_function_ids [OF init] dist
  have len: "length (all_packets (projr (snd (Device_init three_functions sample_heap))))
      = length (packets three_functions)"
    and each: "\<And>i. i < length (packets three_functions) \<Longrightarrow>
      get_function_id (all_packets (projr (snd (Device_init three_functions sample_heap))) ! i)
        = Inr (case function_id (sample_heap (packets three_functions ! i)) of
                 None \<Rightarrow> int i + 1 | Some n \<Rightarrow> n)"
    by blast+
  from each [of 0] each [of 1] each [of 2] len loaded show ?thesis
    by (simp add: cfg ids)
qed

text \<open>
  C3 as stated fails where a dictionary stands at two positions: of three function
  packets without identifiers, the second reads the dictionary of the first, which has
  its identifier by then, and the identifiers are 1, 1 and 3.
\<close>

theorem listed_twice_function_ids:
  "map (\<lambda>a. function_id (sample_heap a)) (packets listed_twice) = [None, None, None]
   \<and> \<not> isl (snd (Device_init listed_twice sample_heap))
   \<and> map get_function_id (all_packets (projr (snd (Device_init listed_twice sample_heap))))
       = [Inr 1, Inr 1, Inr 3]"
  by code_simp

text \<open>
  C4, as amended. \<^verbatim>\<open>Device.__init__\<close> has no check of the identifiers. Where no
  dictionary of the configuration carries an identifier of its own, the identifier of
  each packet is the 1-based position at which its dictionary stands first: the
  identifiers are pairwise different exactly when no dictionary is listed twice, and
  then they are 1, 2, ... in the declared order.
\<close>

theorem function_ids_unique_when_assigned:
  assumes "Device_init c h = (h', Inr d)"
    and "\<forall>a\<in>set (packets c). function_id (h a) = None"
  shows "map get_function_id (all_packets d)
       = map (\<lambda>a. Inr (int (first_position a (packets c)) + 1)) (packets c)
    \<and> (distinct (map get_function_id (all_packets d)) \<longleftrightarrow> distinct (packets c))
    \<and> (distinct (packets c) \<longrightarrow>
         map get_function_id (all_packets d)
           = map (\<lambda>i. Inr (int i + 1)) [0..<length (packets c)])"
proof (intro conjI impI)
  note ids = map_get_function_id_None [OF assms]
  show "map get_function_id (all_packets d)
       = map (\<lambda>a. Inr (int (first_position a (packets c)) + 1)) (packets c)"
    by (rule ids)
  show "distinct (map get_function_id (all_packets d)) \<longleftrightarrow> distinct (packets c)"
    unfolding ids by (simp add: distinct_map first_position_inj)
  assume dist: "distinct (packets c)"
  show "map get_function_id (all_packets d) = map (\<lambda>i. Inr (int i + 1)) [0..<length (packets c)]"
    unfolding ids
  proof (rule nth_equalityI)
    show "length (map (\<lambda>a. (Inr (int (first_position a (packets c)) + 1) :: error + int))
            (packets c)) = length (map (\<lambda>i. (Inr (int i + 1) :: error + int))
            [0..<length (packets c)])"
      by simp
  next
    fix i
    assume "i < length (map (\<lambda>a. (Inr (int (first_position a (packets c)) + 1) :: error + int))
        (packets c))"
    then have i: "i < length (packets c)" by simp
    with first_position_distinct [OF dist i]
    show "map (\<lambda>a. (Inr (int (first_position a (packets c)) + 1) :: error + int)) (packets c) ! i
        = map (\<lambda>i. Inr (int i + 1)) [0..<length (packets c)] ! i"
      by simp
  qed
qed

theorem function_ids_unique_piezo_speaker:
  "\<not> isl (snd (Device_init piezo_speaker sample_heap))
   \<and> map get_function_id (all_packets (projr (snd (Device_init piezo_speaker sample_heap))))
       = [Inr 1, Inr 2, Inr 3, Inr 4]
   \<and> distinct (map get_function_id
        (all_packets (projr (snd (Device_init piezo_speaker sample_heap)))))"
proof -
  have loaded: "\<not> isl (snd (Device_init piezo_speaker sample_heap))"
    by code_simp
  then have init: "Device_init piezo_speaker sample_heap =
      (fst (Device_init piezo_speaker sample_heap),
       Inr (projr (snd (Device_init piezo_speaker sample_heap))))"
    by (simp add: prod_eq_iff)
  have cfg: "packets piezo_speaker = [0, 1, 2, 3]"
    by (simp add: piezo_speaker_def configuration_def)
  have none: "\<forall>a\<in>set (packets piezo_speaker). function_id (sample_heap a) = None"
    unfolding cfg
    by (simp add: sample_heap_def dictionaries_def beep_def morse_code_def beep_finished_def
        morse_code_finished_def)
  have dist: "distinct (packets piezo_speaker)"
    unfolding cfg by simp
  have len: "[0..<length (packets piezo_speaker)] = [0, 1, 2, 3]"
    unfolding cfg by (simp add: upt_rec)
  from function_ids_unique_when_assigned [OF init none]
  have "distinct (map get_function_id
        (all_packets (projr (snd (Device_init piezo_speaker sample_heap)))))
      \<longleftrightarrow> distinct (packets piezo_speaker)"
    and "distinct (packets piezo_speaker) \<longrightarrow>
      map get_function_id (all_packets (projr (snd (Device_init piezo_speaker sample_heap))))
        = map (\<lambda>i. Inr (int i + 1)) [0..<length (packets piezo_speaker)]"
    by blast+
  with dist loaded show ?thesis
    unfolding len by simp
qed

text \<open>
  C4 as stated fails: two packets declared with the identifier 1 are both accepted, and
  the device is constructed with the identifiers 1 and 1.
\<close>

theorem same_function_ids_accepted:
  "\<not> isl (snd (Device_init same_function_ids sample_heap))
   \<and> map get_function_id (all_packets (projr (snd (Device_init same_function_ids sample_heap))))
       = [Inr 1, Inr 1]"
  by code_simp

subsection \<open>Loading a configuration\<close>

text \<open>
  C7, as amended. \<^verbatim>\<open>Device.__init__\<close> raises exactly when some packet dictionary of
  the configuration has a camel case name that, in lower case, differs from the
  underscore name without its underscores, or an element of a direction other than
  \<^verbatim>\<open>in\<close> and \<^verbatim>\<open>out\<close>, or a type other than \<^verbatim>\<open>function\<close> and \<^verbatim>\<open>callback\<close>; what it
  raises is a \<^verbatim>\<open>ValueError\<close>. Whether it raises or returns, it has written into the
  dictionaries of the caller: every dictionary that the first loop reached (all of the
  list up to and with the first whose name or directions are wrong) has the identifier
  it had, or else the 1-based position at which it stands first in the list; every
  other dictionary, and everything else, is as it was.
\<close>

theorem Device_init_fails_iff:
  "((\<exists>e. snd (Device_init c h) = Inl e) \<longleftrightarrow>
      (\<exists>a\<in>set (packets c).
         name_mismatch (h a)
         \<or> (\<exists>e\<in>set (elements (h a)). element_3 e \<noteq> ''in'' \<and> element_3 e \<noteq> ''out'')
         \<or> (packet_type (h a) \<noteq> ''function'' \<and> packet_type (h a) \<noteq> ''callback'')))
   \<and> (\<forall>e. snd (Device_init c h) = Inl e \<longrightarrow> (\<exists>m. e = ValueError m))
   \<and> (\<forall>a. fst (Device_init c h) a =
          (if a \<in> set (reached (packets c) h)
           then assign_function_id (first_position a (packets c)) (h a)
           else h a))"
proof (intro conjI)
  show "(\<exists>e. snd (Device_init c h) = Inl e) \<longleftrightarrow>
      (\<exists>a\<in>set (packets c).
         name_mismatch (h a)
         \<or> (\<exists>e\<in>set (elements (h a)). element_3 e \<noteq> ''in'' \<and> element_3 e \<noteq> ''out'')
         \<or> (packet_type (h a) \<noteq> ''function'' \<and> packet_type (h a) \<noteq> ''callback''))"
    unfolding Device_init_Inl_iff bad_packet_def list_all_iff good_direction_def by auto
  show "\<forall>e. snd (Device_init c h) = Inl e \<longrightarrow> (\<exists>m. e = ValueError m)"
    using Device_init_error by blast
  show "\<forall>a. fst (Device_init c h) a =
          (if a \<in> set (reached (packets c) h)
           then assign_function_id (first_position a (packets c)) (h a)
           else h a)"
    by (simp add: Device_init_fst assign_heap_apply first_position_reached)
qed

text \<open>
  The second dictionary of this list has an element of direction \<^verbatim>\<open>inout\<close>: loading
  raises a \<^verbatim>\<open>ValueError\<close>, the first two dictionaries have received the identifiers
  1 and 2, and the third is as it was.
\<close>

theorem Device_init_fails_wrong_direction:
  "(\<exists>m. snd (Device_init wrong_direction sample_heap) = Inl (ValueError m))
   \<and> fst (Device_init wrong_direction sample_heap) 0 = beep\<lparr>function_id := Some 1\<rparr>
   \<and> fst (Device_init wrong_direction sample_heap) 5 = get_state\<lparr>function_id := Some 2\<rparr>
   \<and> fst (Device_init wrong_direction sample_heap) 1 = morse_code"
proof -
  have cfg: "packets wrong_direction = [0, 5, 1]"
    by (simp add: wrong_direction_def configuration_def)
  have heap: "sample_heap 0 = beep" "sample_heap 5 = get_state" "sample_heap (Suc 0) = morse_code"
    by (simp_all add: sample_heap_def dictionaries_def)
  have bad: "\<exists>a\<in>set (packets wrong_direction).
      name_mismatch (sample_heap a)
      \<or> (\<exists>e\<in>set (elements (sample_heap a)). element_3 e \<noteq> ''in'' \<and> element_3 e \<noteq> ''out'')
      \<or> (packet_type (sample_heap a) \<noteq> ''function'' \<and> packet_type (sample_heap a) \<noteq> ''callback'')"
    unfolding cfg by (simp add: heap get_state_def element_3_def)
  have visited: "reached [0, 5, Suc 0] sample_heap = [0, 5]"
    by code_simp
  have first: "first_position 0 [0, 5, Suc 0] = 0" "first_position 5 [0, 5, Suc 0] = Suc 0"
    by (simp_all add: first_position_def)
  have ids: "function_id beep = None" "function_id get_state = None"
    by (simp_all add: beep_def get_state_def)
  note all = Device_init_fails_iff [of wrong_direction sample_heap]
  note iff = all [THEN conjunct1]
  note err = all [THEN conjunct2, THEN conjunct1]
  note written = all [THEN conjunct2, THEN conjunct2, rule_format]
  from iff bad obtain e where e: "snd (Device_init wrong_direction sample_heap) = Inl e"
    by blast
  with err obtain m where "e = ValueError m"
    by blast
  with e have raises: "\<exists>m. snd (Device_init wrong_direction sample_heap) = Inl (ValueError m)"
    by blast
  have "fst (Device_init wrong_direction sample_heap) 0 = beep\<lparr>function_id := Some 1\<rparr>"
    using written [of 0] by (simp add: cfg visited first heap ids assign_function_id_def)
  moreover
  have "fst (Device_init wrong_direction sample_heap) 5 = get_state\<lparr>function_id := Some 2\<rparr>"
    using written [of 5] by (simp add: cfg visited first heap ids assign_function_id_def)
  moreover
  have "fst (Device_init wrong_direction sample_heap) 1 = morse_code"
    using written [of 1] by (simp add: cfg visited heap)
  ultimately show ?thesis using raises by blast
qed

text \<open>
  C7 as stated fails in its last part: loading writes into the dictionaries of the
  configuration. Here loading raises, and the first two dictionaries of the list have
  received identifiers.
\<close>

theorem Device_init_writes_configuration:
  "map (\<lambda>a. function_id (sample_heap a)) (packets wrong_direction) = [None, None, None]
   \<and> isl (snd (Device_init wrong_direction sample_heap))
   \<and> map (\<lambda>a. function_id (fst (Device_init wrong_direction sample_heap) a))
       (packets wrong_direction) = [Some 1, Some 2, None]"
  by code_simp

subsection \<open>Selecting elements and packets\<close>

text \<open>
  C10. For a packet that \<^verbatim>\<open>Packet.__init__\<close> constructs, \<^verbatim>\<open>get_elements\<close> returns all
  elements without a direction, those of direction \<^verbatim>\<open>in\<close> for \<^verbatim>\<open>in\<close>, those of
  direction \<^verbatim>\<open>out\<close> for \<^verbatim>\<open>out\<close>, and raises a \<^verbatim>\<open>ValueError\<close> for every other
  direction. For a device that \<^verbatim>\<open>Device.__init__\<close> constructs, \<^verbatim>\<open>get_packets\<close> returns
  all packets (one for each packet of the configuration) without a type, the packets of
  type \<^verbatim>\<open>function\<close> for \<^verbatim>\<open>function\<close>, those of type \<^verbatim>\<open>callback\<close> for
  \<^verbatim>\<open>callback\<close>, and raises a \<^verbatim>\<open>ValueError\<close> for every other type.
\<close>

theorem get_elements_get_packets:
  "(Packet_init p = Inr pkt \<longrightarrow>
      get_elements pkt None = Inr (elements p) \<and>
      get_elements pkt (Some ''in'') = Inr (filter (\<lambda>e. element_3 e = ''in'') (elements p)) \<and>
      get_elements pkt (Some ''out'') = Inr (filter (\<lambda>e. element_3 e = ''out'') (elements p)) \<and>
      (dir \<noteq> ''in'' \<and> dir \<noteq> ''out'' \<longrightarrow>
         get_elements pkt (Some dir) = Inl (ValueError (''Invalid element direction '' @ dir))))
   \<and> (Device_init c h = (h', Inr dev) \<longrightarrow>
      map packet (all_packets dev) = map h' (packets c) \<and>
      get_packets dev None = Inr (all_packets dev) \<and>
      get_packets dev (Some ''function'') =
        Inr (filter (\<lambda>k. get_type k = ''function'') (all_packets dev)) \<and>
      get_packets dev (Some ''callback'') =
        Inr (filter (\<lambda>k. get_type k = ''callback'') (all_packets dev)) \<and>
      (typ \<noteq> ''function'' \<and> typ \<noteq> ''callback'' \<longrightarrow>
         get_packets dev (Some typ) = Inl (ValueError (''Invalid packet type '' @ typ))))"
proof (intro conjI impI)
  assume a: "Packet_init p = Inr pkt"
  show "get_elements pkt None = Inr (elements p)"
    using Packet_init_Inr(2) [OF a] by (simp add: get_elements_def)
  show "get_elements pkt (Some ''in'') = Inr (filter (\<lambda>e. element_3 e = ''in'') (elements p))"
    using Packet_init_Inr(3) [OF a] by (simp add: get_elements_def)
  show "get_elements pkt (Some ''out'') = Inr (filter (\<lambda>e. element_3 e = ''out'') (elements p))"
    using Packet_init_Inr(4) [OF a] by (simp add: get_elements_def)
next
  assume "dir \<noteq> ''in'' \<and> dir \<noteq> ''out''"
  then show "get_elements pkt (Some dir) = Inl (ValueError (''Invalid element direction '' @ dir))"
    by (simp add: get_elements_def)
next
  assume a: "Device_init c h = (h', Inr dev)"
  show "get_packets dev None = Inr (all_packets dev)"
    by (simp add: get_packets_def)
  show "get_packets dev (Some ''function'') =
        Inr (filter (\<lambda>k. get_type k = ''function'') (all_packets dev))"
    using Device_init_Inr(5) [OF a] by (simp add: get_packets_def)
  show "get_packets dev (Some ''callback'') =
        Inr (filter (\<lambda>k. get_type k = ''callback'') (all_packets dev))"
    using Device_init_Inr(6) [OF a] by (simp add: get_packets_def)
  show "map packet (all_packets dev) = map h' (packets c)"
  proof (rule nth_equalityI)
    show "length (map packet (all_packets dev)) = length (map h' (packets c))"
      using Device_init_length [OF a] by simp
  next
    fix i assume "i < length (map packet (all_packets dev))"
    then have i: "i < length (packets c)" using Device_init_length [OF a] by simp
    with Device_init_packet_nth [OF a i] Device_init_length [OF a]
    show "map packet (all_packets dev) ! i = map h' (packets c) ! i"
      by simp
  qed
next
  assume "typ \<noteq> ''function'' \<and> typ \<noteq> ''callback''"
  then show "get_packets dev (Some typ) = Inl (ValueError (''Invalid packet type '' @ typ))"
    by (simp add: get_packets_def)
qed

theorem get_elements_get_packets_piezo_speaker:
  "get_elements (all_packets (projr (snd (Device_init piezo_speaker sample_heap))) ! 0)
       (Some ''in'')
     = Inr [(''duration'', ''uint32'', 1, ''in''), (''frequency'', ''uint16'', 1, ''in'')]
   \<and> get_elements (all_packets (projr (snd (Device_init piezo_speaker sample_heap))) ! 0)
       (Some ''out'') = Inr []
   \<and> get_elements (all_packets (projr (snd (Device_init piezo_speaker sample_heap))) ! 0)
       (Some ''inout'')
     = Inl (ValueError ''Invalid element direction inout'')
   \<and> map_sum id (map get_camel_case_name)
        (get_packets (projr (snd (Device_init piezo_speaker sample_heap))) (Some ''function''))
     = Inr [''Beep'', ''MorseCode'']
   \<and> map_sum id (map get_camel_case_name)
        (get_packets (projr (snd (Device_init piezo_speaker sample_heap))) (Some ''callback''))
     = Inr [''BeepFinished'', ''MorseCodeFinished'']
   \<and> get_packets (projr (snd (Device_init piezo_speaker sample_heap))) (Some ''event'')
     = Inl (ValueError ''Invalid packet type event'')"
proof -
  have loaded: "\<not> isl (snd (Device_init piezo_speaker sample_heap))"
    by code_simp
  then have init: "Device_init piezo_speaker sample_heap =
      (fst (Device_init piezo_speaker sample_heap),
       Inr (projr (snd (Device_init piezo_speaker sample_heap))))"
    by (simp add: prod_eq_iff)
  have pkt: "Packet_init (assign_function_id 0 beep) =
      Inr (all_packets (projr (snd (Device_init piezo_speaker sample_heap))) ! 0)"
    by code_simp
  have els: "elements (assign_function_id 0 beep) =
      [(''duration'', ''uint32'', 1, ''in''), (''frequency'', ''uint16'', 1, ''in'')]"
    by (simp add: beep_def)
  have fs: "map get_camel_case_name (filter (\<lambda>k. get_type k = ''function'')
      (all_packets (projr (snd (Device_init piezo_speaker sample_heap))))) =
      [''Beep'', ''MorseCode'']"
    by code_simp
  have cs: "map get_camel_case_name (filter (\<lambda>k. get_type k = ''callback'')
      (all_packets (projr (snd (Device_init piezo_speaker sample_heap))))) =
      [''BeepFinished'', ''MorseCodeFinished'']"
    by code_simp
  from get_elements_get_packets [of "assign_function_id 0 beep"
      "all_packets (projr (snd (Device_init piezo_speaker sample_heap))) ! 0" "''inout''"
      piezo_speaker sample_heap "fst (Device_init piezo_speaker sample_heap)"
      "projr (snd (Device_init piezo_speaker sample_heap))" "''event''"] init pkt els fs cs
  show ?thesis
    by (simp add: element_3_def)
qed

subsection \<open>Response expected flags\<close>

lemma flag_text_inj: "inj flag_text"
proof (rule injI)
  fix x y assume "flag_text x = flag_text y"
  then show "x = y" by (cases x; cases y) simp_all
qed

lemma function_setto_loaded:
  assumes "Packet_init p = Inr pkt" and "get_type pkt = ''function''"
  shows "function_setto pkt =
    Inr (flag_text (spec_response_expected (get_type pkt = ''callback'')
          (\<exists>e\<in>set (elements (packet pkt)). element_3 e = ''out'')
          (fst (doc (packet pkt)) = ''ccf'')))"
proof -
  have "out_elements pkt = filter (\<lambda>e. element_3 e = ''out'') (elements (packet pkt))"
    using Packet_init_Inr(1,4) [OF assms(1)] by simp
  then have "0 < length (out_elements pkt) \<longleftrightarrow>
      (\<exists>e\<in>set (elements (packet pkt)). element_3 e = ''out'')"
    by (auto simp: filter_empty_conv)
  with assms(2) show ?thesis
    by (simp add: function_setto_def get_elements_def get_doc_def spec_response_expected_def)
qed

lemma response_expected_functions_loaded:
  assumes "\<forall>pkt\<in>set pkts. get_type pkt = ''function'' \<and> (\<exists>p. Packet_init p = Inr pkt)"
  shows "response_expected_functions res pkts =
    Inr (res @ concat (map response_expected_entry pkts))"
  using assms
proof (induction pkts arbitrary: res)
  case Nil
  then show ?case by simp
next
  case (Cons pkt pkts)
  then obtain p where p: "Packet_init p = Inr pkt" and t: "get_type pkt = ''function''"
    by auto
  from function_setto_loaded [OF p t] t Cons show ?case
    by (simp add: response_expected_entry_def)
qed

lemma response_expected_callbacks_eq:
  assumes "\<forall>pkt\<in>set pkts. get_type pkt = ''callback''"
  shows "response_expected_callbacks res pkts = res @ concat (map response_expected_entry pkts)"
  using assms
  by (induction pkts arbitrary: res)
     (simp_all add: response_expected_entry_def spec_response_expected_def)

text \<open>
  C5. For a device that \<^verbatim>\<open>Device.__init__\<close> constructs,
  \<^verbatim>\<open>get_java_response_expected\<close> writes one line for each function packet and then
  one for each callback packet, in the declared order, with the flag of the
  specification: always true exactly for a function packet with an out-element, true
  for a function packet without one whose documentation has the tag \<^verbatim>\<open>ccf\<close> (the
  override), false for the other function packets, and always false for every callback
  packet, whatever its elements. Different flags are written differently.
\<close>

theorem response_expected_flags:
  assumes "Device_init c h = (h', Inr d)"
  shows "get_java_response_expected d =
      Inr (concat (map response_expected_entry
                     (filter (\<lambda>k. get_type k = ''function'') (all_packets d)))
           @ concat (map response_expected_entry
                       (filter (\<lambda>k. get_type k = ''callback'') (all_packets d))))
    \<and> inj flag_text"
proof -
  have fs: "\<forall>pkt\<in>set (function_packets d).
      get_type pkt = ''function'' \<and> (\<exists>p. Packet_init p = Inr pkt)"
    using Device_init_Inr(5) [OF assms] Device_init_loaded [OF assms] by auto
  have cs: "\<forall>pkt\<in>set (callback_packets d). get_type pkt = ''callback''"
    using Device_init_Inr(6) [OF assms] by auto
  have "get_java_response_expected d =
      Inr (concat (map response_expected_entry (function_packets d))
           @ concat (map response_expected_entry (callback_packets d)))"
    using response_expected_functions_loaded [OF fs, of "[]"]
      response_expected_callbacks_eq [OF cs]
    by (simp add: get_java_response_expected_def get_packets_def)
  then show ?thesis
    using Device_init_Inr(5,6) [OF assms] flag_text_inj by simp
qed

text \<open>
  A function without out-elements, a callback with an out-element, a function with an
  out-element, and a function without out-elements and with the tag \<^verbatim>\<open>ccf\<close>.
\<close>

theorem response_expected_flags_four:
  "get_java_response_expected (projr (snd (Device_init four_flags sample_heap))) =
     Inr (TAB @ TAB @ ''responseExpected[IPConnection.unsignedByte(FUNCTION_BEEP)] = RESPONSE_EXPECTED_FLAG_FALSE;\<newline>''
        @ TAB @ TAB @ ''responseExpected[IPConnection.unsignedByte(FUNCTION_CALIBRATE)] = RESPONSE_EXPECTED_FLAG_ALWAYS_TRUE;\<newline>''
        @ TAB @ TAB @ ''responseExpected[IPConnection.unsignedByte(FUNCTION_SET_DEBOUNCE_PERIOD)] = RESPONSE_EXPECTED_FLAG_TRUE;\<newline>''
        @ TAB @ TAB @ ''responseExpected[IPConnection.unsignedByte(CALLBACK_STATE_CHANGED)] = RESPONSE_EXPECTED_FLAG_ALWAYS_FALSE;\<newline>'')"
proof -
  have "\<not> isl (snd (Device_init four_flags sample_heap))"
    by code_simp
  then have init: "Device_init four_flags sample_heap =
      (fst (Device_init four_flags sample_heap),
       Inr (projr (snd (Device_init four_flags sample_heap))))"
    by (simp add: prod_eq_iff)
  have entries: "concat (map response_expected_entry
                     (filter (\<lambda>k. get_type k = ''function'')
                        (all_packets (projr (snd (Device_init four_flags sample_heap))))))
           @ concat (map response_expected_entry
                       (filter (\<lambda>k. get_type k = ''callback'')
                          (all_packets (projr (snd (Device_init four_flags sample_heap)))))) =
      TAB @ TAB @ ''responseExpected[IPConnection.unsignedByte(FUNCTION_BEEP)] = RESPONSE_EXPECTED_FLAG_FALSE;\<newline>''
        @ TAB @ TAB @ ''responseExpected[IPConnection.unsignedByte(FUNCTION_CALIBRATE)] = RESPONSE_EXPECTED_FLAG_ALWAYS_TRUE;\<newline>''
        @ TAB @ TAB @ ''responseExpected[IPConnection.unsignedByte(FUNCTION_SET_DEBOUNCE_PERIOD)] = RESPONSE_EXPECTED_FLAG_TRUE;\<newline>''
        @ TAB @ TAB @ ''responseExpected[IPConnection.unsignedByte(CALLBACK_STATE_CHANGED)] = RESPONSE_EXPECTED_FLAG_ALWAYS_FALSE;\<newline>''"
    by code_simp
  from response_expected_flags [OF init] show ?thesis
    unfolding entries by simp
qed


subsection \<open>The date in the generated files\<close>

lemma gen_text_star_inj: "gen_text_star date = gen_text_star date' \<longleftrightarrow> date = date'"
  by (simp add: gen_text_star_def)

lemma gen_text_rst_inj: "gen_text_rst date = gen_text_rst date' \<longleftrightarrow> date = date'"
  by (simp add: gen_text_rst_def)

lemma get_java_import_date:
  "get_java_import date (Some v) = get_java_import date' (Some v) \<longleftrightarrow> date = date'"
  by (simp add: get_java_import_def gen_text_star_def)




text \<open>
  C9 as stated fails: for the same configuration, change log and parts, the Java source
  of a run on the 6th of May and that of a run on the 7th differ, as their import blocks
  do.
\<close>

lemma get_java_import_two_days:
  "get_java_import ''2013-05-06'' (Some (''2'', ''0'', ''0''))
     \<noteq> get_java_import ''2013-05-07'' (Some (''2'', ''0'', ''0''))"
  by (simp add: get_java_import_def gen_text_star_def)


subsection \<open>The merge of the common packets\<close>

lemma merged_or_kept_refl: "merged_or_kept cps c c"
  by (simp add: merged_or_kept_def)

lemma merged_or_kept_trans:
  "merged_or_kept cps c c1 \<Longrightarrow> merged_or_kept cps c1 c2 \<Longrightarrow> merged_or_kept cps c c2"
  by (auto simp: merged_or_kept_def)

lemma merged_or_kept_merge_common: "merged_or_kept cps c (merge_common config cps c)"
  by (simp add: merged_or_kept_def merge_common_def)

lemma merged_or_kept_marked:
  "merged_or_kept cps c c' \<Longrightarrow> common_included c \<noteq> None \<Longrightarrow>
   packets c' = packets c \<and> common_included c' = common_included c"
  by (auto simp: merged_or_kept_def)

text \<open>What a run does to one module.\<close>

lemma generate_loop_module:
  assumes frame: "\<And>c w. packets (fst (make_files c w)) = packets c
                  \<and> common_included (fst (make_files c w)) = common_included c"
  shows "generate_loop make_files cps configs s = (s', r) \<Longrightarrow>
     (fst s n = None \<longrightarrow> fst s' n = None)
     \<and> (\<forall>c. fst s n = Some c \<longrightarrow> (\<exists>c'. fst s' n = Some c' \<and> merged_or_kept cps c c'))"
proof (induction configs arbitrary: s)
  case Nil
  then show ?case by (auto simp: merged_or_kept_refl)
next
  case (Cons config rest)
  show ?case
  proof (cases "suffix ''_config.py'' config")
    case False
    with Cons.prems have "generate_loop make_files cps rest s = (s', r)" by simp
    from Cons.IH [OF this] show ?thesis .
  next
    case True
    show ?thesis
    proof (cases "fst s (config_module config)")
      case None
      with True Cons.prems have "s' = s" by auto
      then show ?thesis by (auto simp: merged_or_kept_refl)
    next
      case (Some c)
      obtain c' w' raised where mf: "make_files (merge_common config cps c) (snd s) = (c', w', raised)"
        by (cases "make_files (merge_common config cps c) (snd s)")
      let ?s1 = "((fst s)(config_module config \<mapsto> c'), w')"
      have kept: "merged_or_kept cps c c'"
        using frame [of "merge_common config cps c" "snd s"] mf merged_or_kept_merge_common [of cps c config]
        by (auto simp: merged_or_kept_def)
      have step: "(fst s n = None \<longrightarrow> fst ?s1 n = None)
          \<and> (\<forall>d. fst s n = Some d \<longrightarrow> (\<exists>d'. fst ?s1 n = Some d' \<and> merged_or_kept cps d d'))"
        using Some kept by (auto simp: merged_or_kept_refl)
      show ?thesis
      proof (cases raised)
        case (Some e)
        with True \<open>fst s (config_module config) = Some c\<close> mf Cons.prems have "s' = ?s1"
          by auto
        with step show ?thesis by simp
      next
        case None
        with True \<open>fst s (config_module config) = Some c\<close> mf Cons.prems
        have "generate_loop make_files cps rest ?s1 = (s', r)" by auto
        from Cons.IH [OF this]
        have ih: "(fst ?s1 n = None \<longrightarrow> fst s' n = None)
          \<and> (\<forall>d. fst ?s1 n = Some d \<longrightarrow> (\<exists>d'. fst s' n = Some d' \<and> merged_or_kept cps d d'))" .
        show ?thesis
        proof (intro conjI allI impI)
          assume "fst s n = None"
          with step have "fst ?s1 n = None" by blast
          with ih show "fst s' n = None" by blast
        next
          fix d assume "fst s n = Some d"
          with step obtain d1 where d1: "fst ?s1 n = Some d1" "merged_or_kept cps d d1"
            by blast
          with ih obtain d2 where d2: "fst s' n = Some d2" "merged_or_kept cps d1 d2"
            by blast
          from merged_or_kept_trans [OF d1(2) d2(2)] d2(1)
          show "\<exists>c'. fst s' n = Some c' \<and> merged_or_kept cps d c'" by blast
        qed
      qed
    qed
  qed
qed

text \<open>A run that comes to its end has merged into every configuration of a brick that it lists.\<close>

lemma generate_loop_merged:
  assumes frame: "\<And>c w. packets (fst (make_files c w)) = packets c
                  \<and> common_included (fst (make_files c w)) = common_included c"
  shows "generate_loop make_files cps configs s = (s', None) \<Longrightarrow>
     config \<in> set configs \<Longrightarrow> suffix ''_config.py'' config \<Longrightarrow> sublist ''brick_'' config \<Longrightarrow>
     fst s (config_module config) = Some c \<Longrightarrow>
     \<exists>c'. fst s' (config_module config) = Some c'
        \<and> packets c' = (if common_included c = None then packets c @ cps else packets c)
        \<and> common_included c' \<noteq> None"
proof (induction configs arbitrary: s c)
  case Nil
  then show ?case by simp
next
  case (Cons x rest)
  show ?case
  proof (cases "suffix ''_config.py'' x")
    case False
    with Cons.prems have run: "generate_loop make_files cps rest s = (s', None)"
      and "config \<in> set rest" by auto
    from Cons.IH [OF run this(2) Cons.prems(3,4,5)] show ?thesis .
  next
    case True
    from True Cons.prems(1) obtain d where d: "fst s (config_module x) = Some d"
      by (cases "fst s (config_module x)") auto
    obtain d' w' raised where mf: "make_files (merge_common x cps d) (snd s) = (d', w', raised)"
      by (cases "make_files (merge_common x cps d) (snd s)")
    let ?s1 = "((fst s)(config_module x \<mapsto> d'), w')"
    from True d mf Cons.prems(1) have raised: "raised = None"
      by (cases raised) auto
    with True d mf Cons.prems(1) have run: "generate_loop make_files cps rest ?s1 = (s', None)"
      by simp
    have d': "packets d' = packets (merge_common x cps d)"
      "common_included d' = common_included (merge_common x cps d)"
      using frame [of "merge_common x cps d" "snd s"] mf by simp_all
    show ?thesis
    proof (cases "x = config")
      case True
      with d Cons.prems(5) have "d = c" by simp
      with d' True Cons.prems(4)
      have now: "packets d' = (if common_included c = None then packets c @ cps else packets c)"
        "common_included d' \<noteq> None"
        by (auto simp: merge_common_def)
      have "fst ?s1 (config_module config) = Some d'" using True by simp
      with generate_loop_module [OF frame run, of "config_module config"]
      obtain c' where c': "fst s' (config_module config) = Some c'" "merged_or_kept cps d' c'"
        by auto
      from merged_or_kept_marked [OF c'(2) now(2)] c'(1) now show ?thesis by simp
    next
      case False
      with Cons.prems(2) have mem: "config \<in> set rest" by simp
      have "\<exists>c1. fst ?s1 (config_module config) = Some c1 \<and> merged_or_kept cps c c1"
      proof (cases "config_module x = config_module config")
        case True
        with d Cons.prems(5) have "d = c" by simp
        then have "merged_or_kept cps c d'"
          using d' merged_or_kept_merge_common [of cps c x] by (auto simp: merged_or_kept_def)
        with True show ?thesis by simp
      next
        case False
        with Cons.prems(5) show ?thesis by (simp add: merged_or_kept_refl)
      qed
      then obtain c1 where c1: "fst ?s1 (config_module config) = Some c1"
        "merged_or_kept cps c c1" by blast
      from Cons.IH [OF run mem Cons.prems(3,4) c1(1)]
      obtain c' where c': "fst s' (config_module config) = Some c'"
        "packets c' = (if common_included c1 = None then packets c1 @ cps else packets c1)"
        "common_included c' \<noteq> None" by blast
      from c1(2) c' show ?thesis by (auto simp: merged_or_kept_def)
    qed
  qed
qed

text \<open>A run over configurations that are all merged changes no list of packets and no marker.\<close>

lemma generate_loop_again:
  assumes frame: "\<And>c w. packets (fst (make_files c w)) = packets c
                  \<and> common_included (fst (make_files c w)) = common_included c"
  shows "generate_loop make_files cps configs s = (s', r) \<Longrightarrow>
     (\<forall>config\<in>set configs. suffix ''_config.py'' config \<longrightarrow> sublist ''brick_'' config \<longrightarrow>
        (\<forall>c. fst s (config_module config) = Some c \<longrightarrow> common_included c \<noteq> None)) \<Longrightarrow>
     map_option packets (fst s' n) = map_option packets (fst s n)
     \<and> map_option common_included (fst s' n) = map_option common_included (fst s n)"
proof (induction configs arbitrary: s)
  case Nil
  then show ?case by simp
next
  case (Cons x rest)
  show ?case
  proof (cases "suffix ''_config.py'' x")
    case False
    with Cons.prems have "generate_loop make_files cps rest s = (s', r)" by simp
    from Cons.IH [OF this] Cons.prems(2) show ?thesis by simp
  next
    case True
    show ?thesis
    proof (cases "fst s (config_module x)")
      case None
      with True Cons.prems(1) have "s' = s" by auto
      then show ?thesis by simp
    next
      case (Some d)
      obtain d' w' raised where mf: "make_files (merge_common x cps d) (snd s) = (d', w', raised)"
        by (cases "make_files (merge_common x cps d) (snd s)")
      let ?s1 = "((fst s)(config_module x \<mapsto> d'), w')"
      have "merge_common x cps d = d"
        using Cons.prems(2) True Some by (auto simp: merge_common_def)
      with frame [of "merge_common x cps d" "snd s"] mf
      have d': "packets d' = packets d" "common_included d' = common_included d" by simp_all
      have same: "\<And>m. map_option packets (fst ?s1 m) = map_option packets (fst s m)
          \<and> map_option common_included (fst ?s1 m) = map_option common_included (fst s m)"
        using Some d' by simp
      show ?thesis
      proof (cases raised)
        case (Some e)
        with True \<open>fst s (config_module x) = Some d\<close> mf Cons.prems(1) have "s' = ?s1" by auto
        with same show ?thesis by simp
      next
        case None
        with True \<open>fst s (config_module x) = Some d\<close> mf Cons.prems(1)
        have run: "generate_loop make_files cps rest ?s1 = (s', r)" by auto
        have "\<forall>config\<in>set rest. suffix ''_config.py'' config \<longrightarrow> sublist ''brick_'' config \<longrightarrow>
            (\<forall>c. fst ?s1 (config_module config) = Some c \<longrightarrow> common_included c \<noteq> None)"
        proof (intro ballI impI allI)
          fix config c
          assume a: "config \<in> set rest" "suffix ''_config.py'' config" "sublist ''brick_'' config"
            "fst ?s1 (config_module config) = Some c"
          from same [of "config_module config"] a(4)
          obtain c0 where "fst s (config_module config) = Some c0"
            "common_included c0 = common_included c"
            by (cases "fst s (config_module config)") (auto split: if_splits)
          with Cons.prems(2) a(1,2,3) show "common_included c \<noteq> None" by auto
        qed
        from Cons.IH [OF run this] same show ?thesis by simp
      qed
    qed
  qed
qed

lemma commonconfig_no_config: "\<not> suffix ''_config.py'' ''brick_commonconfig.py''"
  by code_simp

text \<open>
  C6. Let \<open>make_files\<close> leave the list of packets and the marker of the dictionary it
  is given as they are (it may write into the packet dictionaries, which the list holds
  by reference), and let a first run of \<^verbatim>\<open>generate\<close> come to its end. Then a second run
  over the same listing leaves the list of packets of every module as the first run left
  it. And the first run has merged once: a listed configuration file whose name contains
  \<^verbatim>\<open>brick_\<close> and whose dictionary had no marker has, after the first run (and so
  after the second), its own packets followed by the common packets, and the marker.
\<close>

theorem generate_twice:
  assumes frame: "\<And>c w. packets (fst (make_files c w)) = packets c
                  \<and> common_included (fst (make_files c w)) = common_included c"
    and first: "generate make_files configs common s = (s1, None)"
  shows "(\<forall>n. map_option packets (fst (fst (generate make_files configs common s1)) n)
              = map_option packets (fst s1 n))
    \<and> (\<forall>config c. config \<in> set configs \<longrightarrow> suffix ''_config.py'' config \<longrightarrow>
          sublist ''brick_'' config \<longrightarrow> fst s (config_module config) = Some c \<longrightarrow>
          common_included c = None \<longrightarrow>
          (\<exists>c1. fst s1 (config_module config) = Some c1
              \<and> packets c1 = packets c @ common_packets configs common
              \<and> common_included c1 \<noteq> None))"
proof (intro conjI allI impI)
  let ?cps = "common_packets configs common"
  let ?configs = "remove1 ''brick_commonconfig.py'' configs"
  from first have run1: "generate_loop make_files ?cps ?configs s = (s1, None)"
    by (simp add: generate_def)
  have listed: "config \<in> set ?configs"
    if "config \<in> set configs" "suffix ''_config.py'' config" for config
    using that commonconfig_no_config by (cases "config = ''brick_commonconfig.py''") auto
  {
    fix n
    have marked: "\<forall>config\<in>set ?configs. suffix ''_config.py'' config \<longrightarrow>
        sublist ''brick_'' config \<longrightarrow>
        (\<forall>c. fst s1 (config_module config) = Some c \<longrightarrow> common_included c \<noteq> None)"
    proof (intro ballI impI allI)
      fix config c1
      assume a: "config \<in> set ?configs" "suffix ''_config.py'' config" "sublist ''brick_'' config"
        "fst s1 (config_module config) = Some c1"
      from generate_loop_module [OF frame run1, of "config_module config"] a(4)
      obtain c where "fst s (config_module config) = Some c"
        by (cases "fst s (config_module config)") auto
      from generate_loop_merged [OF frame run1 a(1,2,3) this] a(4)
      show "common_included c1 \<noteq> None" by auto
    qed
    obtain s2 r2 where run2: "generate_loop make_files ?cps ?configs s1 = (s2, r2)"
      by (cases "generate_loop make_files ?cps ?configs s1")
    from generate_loop_again [OF frame run2 marked, of n] run2
    show "map_option packets (fst (fst (generate make_files configs common s1)) n)
              = map_option packets (fst s1 n)"
      by (simp add: generate_def)
  }
  {
    fix config c
    assume a: "config \<in> set configs" "suffix ''_config.py'' config" "sublist ''brick_'' config"
      "fst s (config_module config) = Some c" "common_included c = None"
    from generate_loop_merged [OF frame run1 listed [OF a(1,2)] a(2,3,4)] a(5)
    show "\<exists>c1. fst s1 (config_module config) = Some c1
              \<and> packets c1 = packets c @ common_packets configs common
              \<and> common_included c1 \<noteq> None"
      by auto
  }
qed

text \<open>
  The brick has its two packets and the two common packets after one run and after two;
  the bricklet keeps its four.
\<close>

theorem generate_twice_brick_master:
  "snd (generate log_name listing (Some [100, 101]) (two_modules, [])) = None
   \<and> map_option packets
        (fst (fst (generate log_name listing (Some [100, 101]) (two_modules, [])))
           ''brick_master_config'') = Some [1, 2, 100, 101]
   \<and> map_option packets
        (fst (fst (generate log_name listing (Some [100, 101])
                     (fst (generate log_name listing (Some [100, 101]) (two_modules, [])))))
           ''brick_master_config'') = Some [1, 2, 100, 101]
   \<and> map_option packets
        (fst (fst (generate log_name listing (Some [100, 101])
                     (fst (generate log_name listing (Some [100, 101]) (two_modules, [])))))
           ''bricklet_piezo_speaker_config'') = Some [3, 4, 5, 6]"
proof -
  let ?s1 = "fst (generate log_name listing (Some [100, 101]) (two_modules, []))"
  have frame: "\<And>c w. packets (fst (log_name c w)) = packets c
      \<and> common_included (fst (log_name c w)) = common_included c"
    by (simp add: log_name_def)
  have none: "snd (generate log_name listing (Some [100, 101]) (two_modules, [])) = None"
    by code_simp
  then have first: "generate log_name listing (Some [100, 101]) (two_modules, []) = (?s1, None)"
    by (simp add: prod_eq_iff)
  have master: "map_option packets (fst ?s1 ''brick_master_config'') = Some [1, 2, 100, 101]"
    by code_simp
  have piezo: "map_option packets (fst ?s1 ''bricklet_piezo_speaker_config'') = Some [3, 4, 5, 6]"
    by code_simp
  from generate_twice [OF frame first]
  have "\<forall>n. map_option packets (fst (fst (generate log_name listing (Some [100, 101]) ?s1)) n)
            = map_option packets (fst ?s1 n)"
    by (rule conjunct1)
  with none master piezo show ?thesis by simp
qed


subsection \<open>Arrays in the byte buffer of a request\<close>

text \<open>
  For an array that is not of truth values, \<^verbatim>\<open>get_java_methods\<close> writes a loop that
  puts the element at index \<open>i\<close>; and for an array of truth values,
  \<^verbatim>\<open>get_java_bbgets\<close> writes a loop that assigns to the element at index \<open>i\<close>.
\<close>

lemma uint8_array_put:
  "java_bbputs [] [uint8_array] =
     TAB @ TAB @ ''for(int i = 0; i < 4; i++) {\<newline>''
     @ TAB @ TAB @ TAB @ ''bb.put((byte)value[i]);\<newline>''
     @ TAB @ TAB @ ''}\<newline>\<newline>''"
  by code_simp

lemma bool_array_get:
  "get_java_bbgets [bool_array] False =
     Inr (TAB @ TAB @ ''boolean[] value = new boolean[4];\<newline>''
          @ TAB @ TAB @ ''for(int i = 0; i < 4; i++) {\<newline>''
          @ TAB @ TAB @ TAB @ ''value[i] = (bb.get()) != 0;\<newline>''
          @ TAB @ TAB @ ''}\<newline>\<newline>'',
          ''value'')"
  by code_simp

text \<open>
  C8 fails on the code. For an in-element that is an array of truth values,
  \<^verbatim>\<open>get_java_methods\<close> first wraps the name of the parameter into the conditional
  \<^verbatim>\<open>(value ? 1 : 0)\<close> and then puts the index behind the closing parenthesis: the
  statement it writes takes the array for the condition and indexes the number. It is
  not a statement of Java, so the request of such a function is never packed, and
  nothing is there to be read back.
\<close>

theorem bool_array_put:
  "java_bbputs [] [bool_array] =
     TAB @ TAB @ ''for(int i = 0; i < 4; i++) {\<newline>''
     @ TAB @ TAB @ TAB @ ''bb.put((byte)(value ? 1 : 0)[i]);\<newline>''
     @ TAB @ TAB @ ''}\<newline>\<newline>''"
  by code_simp

end
